theory Spec2Isabelle
  imports Main "HOL-Library.Word"
begin

unbundle bit_operations_syntax

section \<open>Machine types and status codes\<close>

text \<open>
  The sources are the ARMv7 port: \<open>ULONG\<close> is 32 bits, \<open>ULONGLONG\<close> 64 bits,
  \<open>USHORT\<close> 16 bits, and the native word \<open>UINTN\<close> and every pointer 32 bits.
  Arithmetic on them wraps around, as the word types do.
\<close>

type_synonym ushort = "16 word"
type_synonym ulong = "32 word"
type_synonym uintn = "32 word"
type_synonym ulonglong = "64 word"

text \<open>
  Modelled from the spec: the status header (\<open>minoca/status.h\<close>) is not among the
  sources. The status codes are the ones the spec lists as surfaced, together with the
  I/O error a controller reports; \<open>KSUCCESS\<close> holds of \<open>STATUS_SUCCESS\<close> alone.
\<close>

datatype kstatus =
    STATUS_SUCCESS
  | STATUS_NOT_HANDLED
  | STATUS_INVALID_PARAMETER
  | STATUS_INSUFFICIENT_RESOURCES
  | STATUS_INVALID_CONFIGURATION
  | STATUS_DEVICE_NOT_CONNECTED
  | STATUS_NO_MEDIA
  | STATUS_TIMEOUT
  | STATUS_NOT_SUPPORTED
  | STATUS_PATH_NOT_FOUND
  | STATUS_DEVICE_IO_ERROR

definition KSUCCESS :: "kstatus \<Rightarrow> bool" where
  "KSUCCESS s = (s = STATUS_SUCCESS)"

text \<open>
  What stops a routine before it returns: \<open>KeCrashSystem\<close> with its sub-code, an access
  through a null or out-of-range pointer, a read of a local that was never assigned, and
  (in the model only) a loop that used up its fuel.
\<close>

datatype irp_crash_reason =
    IrpCrashReasonInvalid
  | IrpCrashCorruption
  | IrpCrashConstantStateModified
  | IrpCrashImproperlyAllocated

datatype failure =
    KernelCrash irp_crash_reason
  | MemoryFault
  | UninitializedRead
  | OutOfFuel

section \<open>The IRP\<close>

datatype irp_direction = IrpDown | IrpUp

datatype irp_major_code =
    IrpMajorInvalid
  | IrpMajorStateChange
  | IrpMajorOpen
  | IrpMajorClose
  | IrpMajorIo
  | IrpMajorSystemControl
  | IrpMajorUserControl

text \<open>
  The flag word of \<open>IRP_INTERNAL\<close>. The numeric values of the four single-bit masks are
  in \<open>iop.h\<close>, which is not among the sources, so the word is kept as the set of the
  flags that are on: \<open>Flags |= F\<close> inserts, \<open>Flags &= ~F\<close> removes, and
  \<open>(Flags & F) != 0\<close> is membership.
\<close>

datatype irp_flag = IRP_ACTIVE | IRP_COMPLETE | IRP_PENDING | IRP_DRIVER_STACK_COMPLETE

record driver_stack_entry =
  Driver :: nat
  DriverContext :: nat

text \<open>\<open>IRP_STACK_ENTRY\<close>: a null \<open>DriverStackEntry\<close> is \<open>None\<close>, a null context is 0.\<close>

record irp_stack_entry =
  DriverStackEntry :: "driver_stack_entry option"
  IrpContext :: nat

record file_properties =
  FileSize :: ulonglong

text \<open>\<open>IRP_READ_WRITE\<close>: the buffer is named by its address.\<close>

record irp_read_write =
  IoBuffer :: nat
  IoFlags :: ulong
  IoOffset :: ulonglong
  IoSizeInBytes :: uintn
  IoBytesCompleted :: uintn
  NewIoOffset :: ulonglong
  FileProperties :: "file_properties option"

record irp_user_control =
  FromKernelMode :: bool
  UserBuffer :: nat
  UserBufferSize :: uintn

text \<open>
  \<open>IRP_INTERNAL\<close>, the public \<open>IRP\<close> first. The members of the parameter union
  \<open>U\<close> are kept side by side. The private copies of the device and the major code are
  \<open>Internal_Device\<close> and \<open>Internal_MajorCode\<close>; devices are named by their address,
  0 being null. A null \<open>Stack\<close> is \<open>None\<close>.
\<close>

record irp_internal =
  Device :: nat
  MajorCode :: irp_major_code
  MinorCode :: int
  Direction :: irp_direction
  Status :: kstatus
  CompletionRoutine :: "nat option"
  CompletionContext :: nat
  U_Open :: nat
  U_Close :: nat
  U_ReadWrite :: irp_read_write
  U_SystemControl :: nat
  U_UserControl :: irp_user_control
  Magic :: ushort
  Internal_Device :: nat
  Internal_MajorCode :: irp_major_code
  Stack :: "irp_stack_entry list option"
  StackIndex :: ulong
  StackSize :: ulong
  Flags :: "irp_flag set"

text \<open>
  A driver's function table. A dispatch routine receives the driver's device context, its
  IRP context and the IRP, and may change the IRP; a null routine is \<open>None\<close>. The
  \<open>CreateIrp\<close> hook returns its status and the IRP context it stores; of the
  \<open>DestroyIrp\<close> hook only the presence matters to the engine.
\<close>

type_synonym driver_dispatch = "nat \<Rightarrow> nat \<Rightarrow> irp_internal \<Rightarrow> irp_internal"

record driver_function_table =
  CreateIrp :: "(irp_internal \<Rightarrow> nat \<Rightarrow> ulong \<Rightarrow> kstatus \<times> nat) option"
  DestroyIrp :: bool
  DispatchStateChange :: "driver_dispatch option"
  DispatchOpen :: "driver_dispatch option"
  DispatchClose :: "driver_dispatch option"
  DispatchIo :: "driver_dispatch option"
  DispatchSystemControl :: "driver_dispatch option"
  DispatchUserControl :: "driver_dispatch option"

text \<open>
  What the engine takes from outside \<open>irp.c\<close>: the function table behind each driver
  pointer, the object allocator (the memory of the new IRP object as it is handed out, or
  \<open>None\<close> for a null result), whether the pool allocation of the stack succeeds, the
  completion routines, the blocking wait (its status, and the IRP as the other execution
  contexts left it when the sender wakes), and the constants of the headers that are not
  among the sources.
\<close>

record io_env =
  FunctionTable :: "nat \<Rightarrow> driver_function_table"
  ObCreateObject :: "irp_internal option"
  MmAllocateNonPagedPool_succeeds :: bool
  CompletionRoutines :: "nat \<Rightarrow> irp_internal \<Rightarrow> nat \<Rightarrow> irp_internal"
  ObWaitOnObject :: "irp_internal \<Rightarrow> kstatus \<times> irp_internal"
  IRP_MAGIC_VALUE :: ushort
  IrpMinorInvalid :: int
  IrpMinorOpen :: int
  IrpMinorClose :: int
  IrpMinorIoRead :: int
  IrpMinorIoWrite :: int
  IrpMinorSystemControlInvalid :: int
  IrpMinorSystemControlWriteFileProperties :: int
  IrpMinorSystemControlDelete :: int

datatype signal_option = SignalOptionSignalAll | SignalOptionUnsignal

section \<open>Completing, pending and continuing\<close>

text \<open>
  \<open>InternalIrp->Stack[InternalIrp->StackIndex].DriverStackEntry\<close>, followed through
  \<open>->Driver\<close>: the stack, the slot and the entry must be there.
\<close>

definition current_driver_stack_entry :: "irp_internal \<Rightarrow> failure + driver_stack_entry" where
  "current_driver_stack_entry irp =
     (case Stack irp of
        None \<Rightarrow> Inl MemoryFault
      | Some st \<Rightarrow>
          if unat (StackIndex irp) < length st
          then (case DriverStackEntry (st ! unat (StackIndex irp)) of
                  None \<Rightarrow> Inl MemoryFault
                | Some e \<Rightarrow> Inr e)
          else Inl MemoryFault)"

definition IopAdvanceIrpStackLocation :: "irp_internal \<Rightarrow> irp_internal" where
  "IopAdvanceIrpStackLocation irp =
     (if Direction irp = IrpDown
      then (if StackIndex irp + 1 < StackSize irp
            then irp\<lparr>StackIndex := StackIndex irp + 1\<rparr>
            else irp\<lparr>Direction := IrpUp\<rparr>)
      else if StackIndex irp = 0
      then irp\<lparr>Flags := insert IRP_DRIVER_STACK_COMPLETE (Flags irp)\<rparr>
      else irp\<lparr>StackIndex := StackIndex irp - 1\<rparr>)"

text \<open>
  The three calls return the IRP and the \<open>ObSignalObject\<close> calls they made on it.
  The \<open>ASSERT\<close> macro is outside the scope of the spec and does nothing here.
\<close>

definition IoCompleteIrp ::
  "nat \<Rightarrow> irp_internal \<Rightarrow> kstatus \<Rightarrow> failure + (irp_internal \<times> signal_option list)" where
  "IoCompleteIrp Drv irp StatusCode =
     (case current_driver_stack_entry irp of
        Inl f \<Rightarrow> Inl f
      | Inr e \<Rightarrow>
          if Driver e = Drv
          then (let irp' = irp\<lparr>Flags := insert IRP_COMPLETE (Flags irp),
                                Direction := IrpUp,
                                Status := StatusCode\<rparr>
                in Inr (irp', if IRP_PENDING \<in> Flags irp' then [SignalOptionSignalAll] else []))
          else Inr (irp, []))"

definition IoPendIrp ::
  "nat \<Rightarrow> irp_internal \<Rightarrow> failure + (irp_internal \<times> signal_option list)" where
  "IoPendIrp Drv irp =
     (case current_driver_stack_entry irp of
        Inl f \<Rightarrow> Inl f
      | Inr e \<Rightarrow>
          if Driver e = Drv
          then Inr (irp\<lparr>Flags := insert IRP_PENDING (Flags irp)\<rparr>, [])
          else Inr (irp, []))"

definition IoContinueIrp ::
  "nat \<Rightarrow> irp_internal \<Rightarrow> failure + (irp_internal \<times> signal_option list)" where
  "IoContinueIrp Drv irp =
     (case current_driver_stack_entry irp of
        Inl f \<Rightarrow> Inl f
      | Inr e \<Rightarrow>
          if Driver e = Drv
          then Inr (IopAdvanceIrpStackLocation irp, [SignalOptionSignalAll])
          else Inr (irp, []))"

definition IoGetIrpStatus :: "irp_internal \<Rightarrow> kstatus" where
  "IoGetIrpStatus irp = Status irp"

definition IopInitializeIrp :: "irp_internal \<Rightarrow> irp_internal" where
  "IopInitializeIrp irp =
     irp\<lparr>Direction := IrpDown,
         Status := STATUS_NOT_HANDLED,
         Flags := Flags irp - {IRP_COMPLETE, IRP_PENDING, IRP_DRIVER_STACK_COMPLETE},
         CompletionRoutine := None,
         StackIndex := 0\<rparr>"

section \<open>Pumping an IRP through its stack\<close>

text \<open>One dispatch: the slot index and direction at the call, and the driver called.\<close>

datatype driver_call = DriverCall (CallIndex: ulong) (CallDirection: irp_direction) (CallDriver: nat)

definition dispatch_routine :: "driver_function_table \<Rightarrow> irp_major_code \<Rightarrow> failure + driver_dispatch option" where
  "dispatch_routine ft mc =
     (case mc of
        IrpMajorStateChange \<Rightarrow> Inr (DispatchStateChange ft)
      | IrpMajorOpen \<Rightarrow> Inr (DispatchOpen ft)
      | IrpMajorClose \<Rightarrow> Inr (DispatchClose ft)
      | IrpMajorIo \<Rightarrow> Inr (DispatchIo ft)
      | IrpMajorSystemControl \<Rightarrow> Inr (DispatchSystemControl ft)
      | IrpMajorUserControl \<Rightarrow> Inr (DispatchUserControl ft)
      | IrpMajorInvalid \<Rightarrow> Inl (KernelCrash IrpCrashCorruption))"

text \<open>
  \<open>IopCallDriver\<close> selects the routine by the private major code and calls it when it
  is not null; the call made is returned beside the IRP.
\<close>

definition IopCallDriver :: "io_env \<Rightarrow> irp_internal \<Rightarrow> failure + (irp_internal \<times> driver_call list)" where
  "IopCallDriver env irp =
     (case current_driver_stack_entry irp of
        Inl f \<Rightarrow> Inl f
      | Inr e \<Rightarrow>
          (case dispatch_routine (FunctionTable env (Driver e)) (Internal_MajorCode irp) of
             Inl f \<Rightarrow> Inl f
           | Inr None \<Rightarrow> Inr (irp, [])
           | Inr (Some routine) \<Rightarrow>
               (case Stack irp of
                  None \<Rightarrow> Inl MemoryFault
                | Some st \<Rightarrow>
                    Inr (routine (DriverContext e) (IrpContext (st ! unat (StackIndex irp))) irp,
                         [DriverCall (StackIndex irp) (Direction irp) (Driver e)]))))"

text \<open>The \<open>while\<close> loop of \<open>IopPumpIrpThroughStack\<close>, one iteration for each unit of fuel.\<close>

fun pump_loop :: "nat \<Rightarrow> io_env \<Rightarrow> irp_internal \<Rightarrow> failure + (irp_internal \<times> driver_call list)" where
  "pump_loop 0 env irp =
     (if IRP_DRIVER_STACK_COMPLETE \<in> Flags irp then Inr (irp, []) else Inl OutOfFuel)"
| "pump_loop (Suc n) env irp =
     (if IRP_DRIVER_STACK_COMPLETE \<in> Flags irp then Inr (irp, [])
      else (case IopCallDriver env irp of
              Inl f \<Rightarrow> Inl f
            | Inr (irp1, calls) \<Rightarrow>
                if IRP_PENDING \<in> Flags irp1 then Inr (irp1, calls)
                else (case pump_loop n env (IopAdvanceIrpStackLocation irp1) of
                        Inl f \<Rightarrow> Inl f
                      | Inr (irp2, calls2) \<Rightarrow> Inr (irp2, calls @ calls2))))"

definition IopPumpIrpThroughStack ::
  "nat \<Rightarrow> io_env \<Rightarrow> irp_internal \<Rightarrow> failure + (irp_internal \<times> driver_call list)" where
  "IopPumpIrpThroughStack fuel env irp =
     (case pump_loop fuel env irp of
        Inl f \<Rightarrow> Inl f
      | Inr (irp1, calls) \<Rightarrow>
          if IRP_DRIVER_STACK_COMPLETE \<in> Flags irp1
          then (case CompletionRoutine irp1 of
                  None \<Rightarrow> Inr (irp1, calls)
                | Some r \<Rightarrow> Inr (CompletionRoutines env r irp1 (CompletionContext irp1), calls))
          else Inr (irp1, calls))"

section \<open>Sending an IRP synchronously\<close>

text \<open>
  The \<open>while\<close> loop of \<open>IoSendSynchronousIrp\<close>. The local \<open>Status\<close> is carried as an
  option: \<open>None\<close> as long as nothing was assigned to it. The only assignment in the loop
  is the result of the wait. The loop returns what is in \<open>Status\<close> when it is left, the
  IRP, and the dispatches made. The IRP's event is not part of the state: the
  \<open>ObSignalObject(Irp, SignalOptionUnsignal)\<close> before the loop has no counterpart here,
  and what the wait returns, with the IRP as the drivers left it meanwhile, comes from
  the environment.
\<close>

fun send_loop ::
  "nat \<Rightarrow> io_env \<Rightarrow> irp_internal \<Rightarrow> kstatus option \<Rightarrow> driver_call list
     \<Rightarrow> failure + (kstatus option \<times> irp_internal \<times> driver_call list)" where
  "send_loop 0 env irp St calls =
     (if IRP_DRIVER_STACK_COMPLETE \<in> Flags irp
      then Inr (St, irp\<lparr>Flags := Flags irp - {IRP_ACTIVE}\<rparr>, calls)
      else Inl OutOfFuel)"
| "send_loop (Suc n) env irp St calls =
     (if IRP_DRIVER_STACK_COMPLETE \<in> Flags irp
      then Inr (St, irp\<lparr>Flags := Flags irp - {IRP_ACTIVE}\<rparr>, calls)
      else (case IopPumpIrpThroughStack (Suc n) env irp of
              Inl f \<Rightarrow> Inl f
            | Inr (irp1, calls1) \<Rightarrow>
                if IRP_PENDING \<in> Flags irp1
                then (case ObWaitOnObject env irp1 of
                        (WaitStatus, irp2) \<Rightarrow>
                          if \<not> KSUCCESS WaitStatus
                          then Inr (Some WaitStatus,
                                    irp2\<lparr>Flags := Flags irp2 - {IRP_ACTIVE}\<rparr>,
                                    calls @ calls1)
                          else send_loop n env (irp2\<lparr>Flags := Flags irp2 - {IRP_PENDING}\<rparr>)
                                 (Some WaitStatus) (calls @ calls1))
                else send_loop n env irp1 St (calls @ calls1)))"

definition IoSendSynchronousIrp ::
  "nat \<Rightarrow> io_env \<Rightarrow> irp_internal
     \<Rightarrow> failure + (kstatus option \<times> irp_internal \<times> driver_call list)" where
  "IoSendSynchronousIrp fuel env irp =
     (if Magic irp \<noteq> IRP_MAGIC_VALUE env
      then Inl (KernelCrash IrpCrashImproperlyAllocated)
      else if Internal_Device irp \<noteq> Device irp
      then Inl (KernelCrash IrpCrashConstantStateModified)
      else if Internal_MajorCode irp \<noteq> MajorCode irp
      then Inl (KernelCrash IrpCrashConstantStateModified)
      else if MinorCode irp = IrpMinorInvalid env
      then Inr (Some STATUS_INVALID_PARAMETER, irp, [])
      else if Direction irp \<noteq> IrpDown
      then Inr (Some STATUS_INVALID_PARAMETER, irp, [])
      else if CompletionRoutine irp \<noteq> None
      then Inr (Some STATUS_INVALID_PARAMETER, irp, [])
      else send_loop fuel env (irp\<lparr>Flags := insert IRP_ACTIVE (Flags irp)\<rparr>) None [])"

section \<open>Devices\<close>

datatype object_type = ObjectDevice | ObjectVolume

text \<open>
  The device states other than \<open>DeviceRemoved\<close> are declared in a header that is not
  among the sources; they are kept by their number.
\<close>

datatype device_state = DeviceRemoved | DeviceStateOther nat

text \<open>
  \<open>DEVICE\<close> (a \<open>VOLUME\<close> starts with one): the object type of its header, its
  address, its state, the driver stack list with the count kept beside it, the target
  device, and for a volume whether \<open>VOLUME_FLAG_UNMOUNTING\<close> is set in its flags. The
  shared-exclusive lock of the device is named by the device's address.
\<close>

datatype device =
  DEVICE (Header_Type: object_type) (Address: nat) (State: device_state)
         (DriverStackHead: "driver_stack_entry list") (DriverStackSize: ulong)
         (TargetDevice: "device option") (Unmounting: bool)

section \<open>Creating and destroying an IRP\<close>

text \<open>What \<open>IoCreateIrp\<close> and \<open>IoDestroyIrp\<close> call, in order.\<close>

datatype pool_event =
    CallCreateIrp (HookDriver: nat) (HookDriverContext: nat) (HookEntry: nat)
  | CallDestroyIrp (HookDriver: nat) (HookDriverContext: nat) (HookEntry: nat) (HookIrpContext: nat)
  | FreeIrpStack
  | ReleaseIrp

text \<open>\<open>sizeof(IRP_STACK_ENTRY)\<close>: two pointers.\<close>

definition SIZEOF_IRP_STACK_ENTRY :: ulong where
  "SIZEOF_IRP_STACK_ENTRY = 8"

text \<open>The first loop over the target chain, which adds up the stack sizes.\<close>

fun chain_stack_size :: "device \<Rightarrow> ulong \<Rightarrow> ulong" where
  "chain_stack_size (DEVICE ty a s h sz tgt u) acc =
     (if ty \<noteq> ObjectDevice then acc + sz
      else (case tgt of None \<Rightarrow> acc + sz | Some t \<Rightarrow> chain_stack_size t (acc + sz)))"

text \<open>
  The locals of \<open>IoCreateIrp\<close> that the second loop changes. \<open>CurrentStackEntry\<close> is
  \<open>None\<close> until the loop assigns it.
\<close>

record create_state =
  Irp :: irp_internal
  EntryIndex :: ulong
  CurrentStackEntry :: "driver_stack_entry option"
  Calls :: "pool_event list"

text \<open>
  The inner loop, over the driver stack of one device. It stops with \<open>Some Status\<close> at the
  first hook that fails (the \<open>goto CreateIrpEnd\<close>).
\<close>

fun create_device_entries ::
  "io_env \<Rightarrow> ulong \<Rightarrow> driver_stack_entry list \<Rightarrow> create_state
     \<Rightarrow> failure + (kstatus option \<times> create_state)" where
  "create_device_entries env fl [] cs = Inr (None, cs)"
| "create_device_entries env fl (e # es) cs =
     (case Stack (Irp cs) of
        None \<Rightarrow> Inl MemoryFault
      | Some st \<Rightarrow>
          if \<not> unat (EntryIndex cs) < length st then Inl MemoryFault
          else
            (let i = unat (EntryIndex cs);
                 st1 = st[i := (st ! i)\<lparr>DriverStackEntry := Some e\<rparr>];
                 irp1 = (Irp cs)\<lparr>Stack := Some st1\<rparr>
             in case CreateIrp (FunctionTable env (Driver e)) of
                  None \<Rightarrow>
                    create_device_entries env fl es
                      (cs\<lparr>Irp := irp1, CurrentStackEntry := Some e,
                          EntryIndex := EntryIndex cs + 1\<rparr>)
                | Some hook \<Rightarrow>
                    (case hook irp1 (DriverContext e) fl of
                       (HookStatus, ctx) \<Rightarrow>
                         (let st2 = st1[i := (st1 ! i)\<lparr>IrpContext := ctx\<rparr>];
                              cs2 = cs\<lparr>Irp := irp1\<lparr>Stack := Some st2\<rparr>,
                                       CurrentStackEntry := Some e,
                                       Calls := Calls cs @ [CallCreateIrp (Driver e) (DriverContext e) i]\<rparr>
                          in if \<not> KSUCCESS HookStatus then Inr (Some HookStatus, cs2)
                             else create_device_entries env fl es
                                    (cs2\<lparr>EntryIndex := EntryIndex cs + 1\<rparr>)))))"

text \<open>The outer loop, over the target chain; it does not go through a volume.\<close>

fun create_chain_entries ::
  "io_env \<Rightarrow> ulong \<Rightarrow> device \<Rightarrow> create_state \<Rightarrow> failure + (kstatus option \<times> create_state)" where
  "create_chain_entries env fl (DEVICE ty a s h sz tgt u) cs =
     (case create_device_entries env fl h cs of
        Inl f \<Rightarrow> Inl f
      | Inr (Some HookStatus, cs1) \<Rightarrow> Inr (Some HookStatus, cs1)
      | Inr (None, cs1) \<Rightarrow>
          if ty \<noteq> ObjectDevice then Inr (None, cs1)
          else (case tgt of
                  None \<Rightarrow> Inr (None, cs1)
                | Some t \<Rightarrow> create_chain_entries env fl t cs1))"

text \<open>
  The clean-up loop at \<open>CreateIrpEnd\<close>, over the entry indices below \<open>StackSize\<close>. It
  leaves at the first slot whose \<open>DriverStackEntry\<close> is null, and takes the hook and the
  driver context from \<open>CurrentStackEntry\<close>.
\<close>

fun destroy_created_entries ::
  "io_env \<Rightarrow> irp_stack_entry list \<Rightarrow> driver_stack_entry option \<Rightarrow> nat list
     \<Rightarrow> failure + pool_event list" where
  "destroy_created_entries env st cur [] = Inr []"
| "destroy_created_entries env st cur (i # rest) =
     (if \<not> i < length st then Inl MemoryFault
      else if DriverStackEntry (st ! i) = None then Inr []
      else (case cur of
              None \<Rightarrow> Inl UninitializedRead
            | Some c \<Rightarrow>
                (case destroy_created_entries env st cur rest of
                   Inl f \<Rightarrow> Inl f
                 | Inr evs \<Rightarrow>
                     Inr ((if DestroyIrp (FunctionTable env (Driver c))
                           then [CallDestroyIrp (Driver c) (DriverContext c) i (IrpContext (st ! i))]
                           else []) @ evs))))"

text \<open>
  \<open>IoCreateIrp\<close> returns the IRP, or \<open>None\<close> for a null result, and the calls it made.
  A failed allocation of the stack sets \<open>Status\<close> and goes on to \<open>RtlZeroMemory\<close>,
  which writes \<open>AllocationSize\<close> bytes through the null pointer. The stack comes zeroed:
  every slot null.
\<close>

definition IoCreateIrp ::
  "io_env \<Rightarrow> device option \<Rightarrow> irp_major_code \<Rightarrow> ulong
     \<Rightarrow> failure + (irp_internal option \<times> pool_event list)" where
  "IoCreateIrp env Dev Major fl =
     (if (case Dev of None \<Rightarrow> False
          | Some d \<Rightarrow> DriverStackSize d = 0 \<or> DriverStackHead d = [])
      then Inr (None, [])
      else (case ObCreateObject env of
              None \<Rightarrow> Inr (None, [])
            | Some obj \<Rightarrow>
                (let dev_address = (case Dev of None \<Rightarrow> 0 | Some d \<Rightarrow> Address d);
                     size = (case Dev of None \<Rightarrow> 0 | Some d \<Rightarrow> chain_stack_size d 0);
                     AllocationSize = SIZEOF_IRP_STACK_ENTRY * size;
                     stack = (if MmAllocateNonPagedPool_succeeds env
                              then Some (replicate (unat AllocationSize div unat SIZEOF_IRP_STACK_ENTRY)
                                           \<lparr>DriverStackEntry = None, IrpContext = 0\<rparr>)
                              else None);
                     irp = IopInitializeIrp
                             (obj\<lparr>Magic := IRP_MAGIC_VALUE env,
                                  Internal_Device := dev_address,
                                  Internal_MajorCode := Major,
                                  Device := dev_address,
                                  MajorCode := Major,
                                  Flags := {},
                                  Stack := stack,
                                  StackIndex := 0,
                                  StackSize := size\<rparr>);
                     cs = \<lparr>Irp = irp, EntryIndex = 0, CurrentStackEntry = None, Calls = []\<rparr>
                 in if stack = None \<and> AllocationSize \<noteq> 0 then Inl MemoryFault
                    else (case (case Dev of None \<Rightarrow> Inr (None, cs)
                                | Some d \<Rightarrow> create_chain_entries env fl d cs) of
                            Inl f \<Rightarrow> Inl f
                          | Inr (None, cs1) \<Rightarrow> Inr (Some (Irp cs1), Calls cs1)
                          | Inr (Some HookStatus, cs1) \<Rightarrow>
                              (case Stack (Irp cs1) of
                                 None \<Rightarrow> Inr (None, Calls cs1 @ [ReleaseIrp])
                               | Some st \<Rightarrow>
                                   (case destroy_created_entries env st (CurrentStackEntry cs1)
                                           [0..<unat (StackSize (Irp cs1))] of
                                      Inl f \<Rightarrow> Inl f
                                    | Inr evs \<Rightarrow>
                                        Inr (None, Calls cs1 @ evs @ [FreeIrpStack, ReleaseIrp])))))))"

text \<open>The loop of \<open>IoDestroyIrp\<close>: every slot, with the hook of the slot's own driver.\<close>

fun destroy_entries :: "io_env \<Rightarrow> irp_stack_entry list \<Rightarrow> nat list \<Rightarrow> failure + pool_event list" where
  "destroy_entries env st [] = Inr []"
| "destroy_entries env st (i # rest) =
     (if \<not> i < length st then Inl MemoryFault
      else (case DriverStackEntry (st ! i) of
              None \<Rightarrow> Inl MemoryFault
            | Some e \<Rightarrow>
                (case destroy_entries env st rest of
                   Inl f \<Rightarrow> Inl f
                 | Inr evs \<Rightarrow>
                     Inr ((if DestroyIrp (FunctionTable env (Driver e))
                           then [CallDestroyIrp (Driver e) (DriverContext e) i (IrpContext (st ! i))]
                           else []) @ evs))))"

definition IoDestroyIrp :: "io_env \<Rightarrow> irp_internal \<Rightarrow> failure + pool_event list" where
  "IoDestroyIrp env irp =
     (if Magic irp \<noteq> IRP_MAGIC_VALUE env
      then Inl (KernelCrash IrpCrashImproperlyAllocated)
      else if Internal_Device irp \<noteq> Device irp
      then Inl (KernelCrash IrpCrashConstantStateModified)
      else if Internal_MajorCode irp \<noteq> MajorCode irp
      then Inl (KernelCrash IrpCrashConstantStateModified)
      else (case (case Stack irp of
                    None \<Rightarrow> if StackSize irp = 0 then Inr [] else Inl MemoryFault
                  | Some st \<Rightarrow> destroy_entries env st [0..<unat (StackSize irp)]) of
              Inl f \<Rightarrow> Inl f
            | Inr evs \<Rightarrow> Inr (evs @ [FreeIrpStack, ReleaseIrp])))"

section \<open>The synchronous helpers\<close>

text \<open>
  What a helper does, in order: taking and releasing the device's shared lock, and the
  creation, the send and the destruction of its IRP, each with what happened inside.
\<close>

datatype helper_event =
    AcquireSharedLock nat
  | ReleaseSharedLock nat
  | Created "pool_event list"
  | Sent "driver_call list"
  | Destroyed "pool_event list"

text \<open>
  A helper branches on the status \<open>IoSendSynchronousIrp\<close> returned; when that is the
  local that was never assigned, the branch reads an indeterminate value.
\<close>

definition IopSendOpenIrp ::
  "nat \<Rightarrow> io_env \<Rightarrow> device \<Rightarrow> nat \<Rightarrow> failure + (kstatus \<times> nat \<times> helper_event list)" where
  "IopSendOpenIrp fuel env Dev OpenRequest =
     (if State Dev = DeviceRemoved
      then Inr (STATUS_DEVICE_NOT_CONNECTED, OpenRequest,
                [AcquireSharedLock (Address Dev), ReleaseSharedLock (Address Dev)])
      else (case IoCreateIrp env (Some Dev) IrpMajorOpen 0 of
              Inl f \<Rightarrow> Inl f
            | Inr (None, cev) \<Rightarrow>
                Inr (STATUS_INSUFFICIENT_RESOURCES, OpenRequest,
                     [AcquireSharedLock (Address Dev), Created cev, ReleaseSharedLock (Address Dev)])
            | Inr (Some irp, cev) \<Rightarrow>
                (case IoSendSynchronousIrp fuel env
                        (irp\<lparr>MinorCode := IrpMinorOpen env, U_Open := OpenRequest\<rparr>) of
                   Inl f \<Rightarrow> Inl f
                 | Inr (None, irp1, calls) \<Rightarrow> Inl UninitializedRead
                 | Inr (Some St, irp1, calls) \<Rightarrow>
                     (case IoDestroyIrp env irp1 of
                        Inl f \<Rightarrow> Inl f
                      | Inr dev \<Rightarrow>
                          Inr (if \<not> KSUCCESS St then St else IoGetIrpStatus irp1,
                               if \<not> KSUCCESS St then OpenRequest else U_Open irp1,
                               [AcquireSharedLock (Address Dev), Created cev, Sent calls,
                                ReleaseSharedLock (Address Dev), Destroyed dev])))))"

definition IopSendCloseIrp ::
  "nat \<Rightarrow> io_env \<Rightarrow> device \<Rightarrow> nat \<Rightarrow> failure + (kstatus \<times> helper_event list)" where
  "IopSendCloseIrp fuel env Dev CloseRequest =
     (case IoCreateIrp env (Some Dev) IrpMajorClose 0 of
        Inl f \<Rightarrow> Inl f
      | Inr (None, cev) \<Rightarrow> Inr (STATUS_INSUFFICIENT_RESOURCES, [Created cev])
      | Inr (Some irp, cev) \<Rightarrow>
          (case IoSendSynchronousIrp fuel env
                  (irp\<lparr>MinorCode := IrpMinorClose env, U_Close := CloseRequest\<rparr>) of
             Inl f \<Rightarrow> Inl f
           | Inr (None, irp1, calls) \<Rightarrow> Inl UninitializedRead
           | Inr (Some St, irp1, calls) \<Rightarrow>
               (case IoDestroyIrp env irp1 of
                  Inl f \<Rightarrow> Inl f
                | Inr dev \<Rightarrow>
                    Inr (if \<not> KSUCCESS St then St else IoGetIrpStatus irp1,
                         [Created cev, Sent calls, Destroyed dev]))))"

text \<open>
  \<open>IopSendIoIrp\<close>. The page-fault and byte counters of the thread and of the global
  statistics, which it also updates, are left out.
\<close>

definition IopSendIoIrp ::
  "nat \<Rightarrow> io_env \<Rightarrow> device \<Rightarrow> int \<Rightarrow> irp_read_write
     \<Rightarrow> failure + (kstatus \<times> irp_read_write \<times> helper_event list)" where
  "IopSendIoIrp fuel env Dev MinorCodeNumber Request =
     (case IoCreateIrp env (Some Dev) IrpMajorIo 0 of
        Inl f \<Rightarrow> Inl f
      | Inr (None, cev) \<Rightarrow> Inr (STATUS_INSUFFICIENT_RESOURCES, Request, [Created cev])
      | Inr (Some irp, cev) \<Rightarrow>
          (case IoSendSynchronousIrp fuel env
                  (irp\<lparr>MinorCode := MinorCodeNumber, U_ReadWrite := Request\<rparr>) of
             Inl f \<Rightarrow> Inl f
           | Inr (None, irp1, calls) \<Rightarrow> Inl UninitializedRead
           | Inr (Some St, irp1, calls) \<Rightarrow>
               (case IoDestroyIrp env irp1 of
                  Inl f \<Rightarrow> Inl f
                | Inr dev \<Rightarrow>
                    Inr (if \<not> KSUCCESS St then St else IoGetIrpStatus irp1,
                         if \<not> KSUCCESS St then Request else U_ReadWrite irp1,
                         [Created cev, Sent calls, Destroyed dev]))))"

text \<open>
  The clamp of \<open>IopSendIoReadIrp\<close> on the request as the send left it. The sum and the
  comparisons are those of \<open>ULONGLONG\<close>; the assignment to \<open>IoBytesCompleted\<close> narrows
  to \<open>UINTN\<close>.
\<close>

definition clamp_to_file_size :: "ulonglong \<Rightarrow> irp_read_write \<Rightarrow> irp_read_write" where
  "clamp_to_file_size Limit Request =
     (if IoOffset Request + ucast (IoBytesCompleted Request) > Limit
      then (if IoOffset Request > Limit
            then Request\<lparr>IoBytesCompleted := 0, NewIoOffset := IoOffset Request\<rparr>
            else Request\<lparr>IoBytesCompleted := ucast (Limit - IoOffset Request),
                         NewIoOffset := IoOffset Request
                                        + ucast (ucast (Limit - IoOffset Request) :: uintn)\<rparr>)
      else Request)"

definition IopSendIoReadIrp ::
  "nat \<Rightarrow> io_env \<Rightarrow> device \<Rightarrow> irp_read_write
     \<Rightarrow> failure + (kstatus \<times> irp_read_write \<times> helper_event list)" where
  "IopSendIoReadIrp fuel env Dev Request =
     (case IopSendIoIrp fuel env Dev (IrpMinorIoRead env) Request of
        Inl f \<Rightarrow> Inl f
      | Inr (St, Request1, evs) \<Rightarrow>
          (case FileProperties Request1 of
             None \<Rightarrow> Inl MemoryFault
           | Some props \<Rightarrow> Inr (St, clamp_to_file_size (FileSize props) Request1, evs)))"

definition IopSendSystemControlIrp ::
  "nat \<Rightarrow> io_env \<Rightarrow> device \<Rightarrow> int \<Rightarrow> nat \<Rightarrow> failure + (kstatus \<times> helper_event list)" where
  "IopSendSystemControlIrp fuel env Dev ControlNumber SystemContext =
     (if ControlNumber \<le> IrpMinorSystemControlInvalid env
      then Inr (STATUS_INVALID_PARAMETER, [])
      else if State Dev = DeviceRemoved
      then Inr (STATUS_DEVICE_NOT_CONNECTED,
                [AcquireSharedLock (Address Dev), ReleaseSharedLock (Address Dev)])
      else if Header_Type Dev = ObjectVolume \<and> Unmounting Dev
              \<and> ControlNumber \<noteq> IrpMinorSystemControlWriteFileProperties env
              \<and> ControlNumber \<noteq> IrpMinorSystemControlDelete env
      then Inr (STATUS_DEVICE_NOT_CONNECTED,
                [AcquireSharedLock (Address Dev), ReleaseSharedLock (Address Dev)])
      else (case IoCreateIrp env (Some Dev) IrpMajorSystemControl 0 of
              Inl f \<Rightarrow> Inl f
            | Inr (None, cev) \<Rightarrow>
                Inr (STATUS_INSUFFICIENT_RESOURCES,
                     [AcquireSharedLock (Address Dev), Created cev, ReleaseSharedLock (Address Dev)])
            | Inr (Some irp, cev) \<Rightarrow>
                (case IoSendSynchronousIrp fuel env
                        (irp\<lparr>MinorCode := ControlNumber, U_SystemControl := SystemContext\<rparr>) of
                   Inl f \<Rightarrow> Inl f
                 | Inr (None, irp1, calls) \<Rightarrow> Inl UninitializedRead
                 | Inr (Some St, irp1, calls) \<Rightarrow>
                     (case IoDestroyIrp env irp1 of
                        Inl f \<Rightarrow> Inl f
                      | Inr dev \<Rightarrow>
                          Inr (if \<not> KSUCCESS St then St else IoGetIrpStatus irp1,
                               [AcquireSharedLock (Address Dev), Created cev, Sent calls,
                                ReleaseSharedLock (Address Dev), Destroyed dev])))))"

definition IopSendUserControlIrp ::
  "nat \<Rightarrow> io_env \<Rightarrow> device \<Rightarrow> ulong \<Rightarrow> bool \<Rightarrow> nat \<Rightarrow> uintn
     \<Rightarrow> failure + (kstatus \<times> helper_event list)" where
  "IopSendUserControlIrp fuel env Dev Minor FromKernel UserContext UserContextSize =
     (if State Dev = DeviceRemoved
      then Inr (STATUS_DEVICE_NOT_CONNECTED,
                [AcquireSharedLock (Address Dev), ReleaseSharedLock (Address Dev)])
      else (case IoCreateIrp env (Some Dev) IrpMajorUserControl 0 of
              Inl f \<Rightarrow> Inl f
            | Inr (None, cev) \<Rightarrow>
                Inr (STATUS_INSUFFICIENT_RESOURCES,
                     [AcquireSharedLock (Address Dev), Created cev, ReleaseSharedLock (Address Dev)])
            | Inr (Some irp, cev) \<Rightarrow>
                (case IoSendSynchronousIrp fuel env
                        (irp\<lparr>MinorCode := uint Minor,
                             U_UserControl := \<lparr>FromKernelMode = FromKernel,
                                               UserBuffer = UserContext,
                                               UserBufferSize = UserContextSize\<rparr>\<rparr>) of
                   Inl f \<Rightarrow> Inl f
                 | Inr (None, irp1, calls) \<Rightarrow> Inl UninitializedRead
                 | Inr (Some St, irp1, calls) \<Rightarrow>
                     (case IoDestroyIrp env irp1 of
                        Inl f \<Rightarrow> Inl f
                      | Inr dev \<Rightarrow>
                          Inr (if \<not> KSUCCESS St then St else IoGetIrpStatus irp1,
                               [AcquireSharedLock (Address Dev), Created cev, Sent calls,
                                ReleaseSharedLock (Address Dev), Destroyed dev])))))"

section \<open>The SD slot and disk contexts\<close>

datatype sd_device_type = SdDeviceInvalid | SdDeviceBus | SdDeviceSlot | SdDeviceDisk

definition SD_INSERTION_SETTLE_DELAY :: nat where
  "SD_INSERTION_SETTLE_DELAY = 50000"

definition SD_SLOT_FLAG_REMOVAL_PENDING :: ulong where
  "SD_SLOT_FLAG_REMOVAL_PENDING = 0x00000001"

definition SD_SLOT_FLAG_INSERTION_PENDING :: ulong where
  "SD_SLOT_FLAG_INSERTION_PENDING = 0x00000002"

definition SD_DISK_FLAG_MEDIA_PRESENT :: ulong where
  "SD_DISK_FLAG_MEDIA_PRESENT = 0x00000001"

definition SD_DISK_FLAG_DMA_SUPPORTED :: ulong where
  "SD_DISK_FLAG_DMA_SUPPORTED = 0x00000002"

text \<open>
  \<open>SD_DISK\<close>. Pointers are addresses, 0 being null; the IRP pointer is an option. Of the
  disk interface only the token is kept.
\<close>

record sd_disk =
  Disk_Type :: sd_device_type
  Disk_ReferenceCount :: ulong
  Disk_Device :: nat
  Disk_Parent :: nat
  Disk_Controller :: nat
  Disk_ControllerLock :: nat
  Disk_Irp :: "nat option"
  Disk_IoBuffer :: nat
  Disk_Flags :: ulong
  Disk_BlockShift :: ulong
  Disk_BlockCount :: ulonglong
  Disk_DiskToken :: nat

text \<open>\<open>SD_SLOT\<close>; the pointer to the child disk is an option.\<close>

record sd_slot =
  Slot_Type :: sd_device_type
  Slot_Device :: nat
  Slot_Controller :: nat
  Slot_ControllerBase :: nat
  Slot_Resource :: nat
  Slot_ChildIndex :: uintn
  Slot_Parent :: nat
  Slot_Disk :: "nat option"
  Slot_Flags :: ulong
  Slot_Lock :: nat

text \<open>\<open>IO_BUFFER_FRAGMENT\<close> and \<open>IO_BUFFER\<close>; a buffer is identified by its address.\<close>

record io_buffer_fragment =
  VirtualAddress :: uintn
  PhysicalAddress :: ulonglong
  Size :: uintn

record io_buffer =
  BufferAddress :: nat
  Fragment :: "io_buffer_fragment list"
  CurrentOffset :: uintn

text \<open>What the driver calls outside itself, in order.\<close>

datatype sd_event =
    KeAcquireQueuedLock nat
  | KeReleaseQueuedLock nat
  | KeDelayExecution nat
  | CallSdInitializeController nat bool
  | CallSdGetMediaParameters nat
  | CallSdInitializeDma nat
  | CallIoCreateDevice nat nat
  | CallIoMergeChildArrays nat
  | MmFreeNonPagedPool nat
  | ObSignalObject nat signal_option
  | CallSdBlockIoDma nat ulonglong uintn nat uintn bool nat
  | CallSdBlockIoPolled nat ulonglong uintn uintn bool
  | CallMmCopyIoBuffer nat nat uintn
  | CallMmFreeIoBuffer nat
  | CallMmFlushBuffer uintn uintn

text \<open>
  The memory the driver works on: the live disk contexts and IRPs by address, the disk
  contexts that were freed (with their last contents), the child devices merged into the
  query-children IRP, and the calls made so far.
\<close>

record sd_world =
  Disks :: "nat \<rightharpoonup> sd_disk"
  Irps :: "nat \<rightharpoonup> irp_internal"
  FreedDisks :: "(nat \<times> sd_disk) list"
  IrpChildren :: "nat list"
  Trace :: "sd_event list"

text \<open>
  What the driver takes from outside \<open>sd.c\<close>: the controller library, the pool (the
  address of the next disk allocation, or \<open>None\<close>), the I/O functions that create a
  device and merge children, the I/O buffer functions, and \<open>RtlCountTrailingZeros32\<close>.
  \<open>SdGetMediaParameters\<close> gives its status, the block count and the block size;
  \<open>IoCreateDevice\<close> its status and the new device; \<open>MmValidateIoBuffer\<close> its status
  and the buffer it leaves in the caller's pointer. \<open>SdBlockIoPolled\<close> may answer by
  the calls already made to the controller.
\<close>

record sd_env =
  SdDriver :: nat
  SdInitializeController :: "nat \<Rightarrow> bool \<Rightarrow> kstatus"
  AllocateDisk :: "nat option"
  SdGetMediaParameters :: "nat \<Rightarrow> kstatus \<times> ulonglong \<times> ulong"
  RtlCountTrailingZeros32 :: "ulong \<Rightarrow> ulong"
  SdInitializeDma :: "nat \<Rightarrow> kstatus"
  IoCreateDevice :: "nat \<Rightarrow> nat \<Rightarrow> kstatus \<times> nat"
  IoMergeChildArrays :: "nat \<Rightarrow> kstatus"
  MmValidateIoBuffer ::
    "ulonglong \<Rightarrow> ulonglong \<Rightarrow> uintn \<Rightarrow> uintn \<Rightarrow> bool \<Rightarrow> io_buffer \<Rightarrow> kstatus \<times> io_buffer"
  MmCopyIoBuffer :: "io_buffer \<Rightarrow> uintn \<Rightarrow> io_buffer \<Rightarrow> uintn \<Rightarrow> uintn \<Rightarrow> kstatus"
  MmMapIoBuffer :: "io_buffer \<Rightarrow> kstatus"
  SdBlockIoPolled :: "sd_event list \<Rightarrow> nat \<Rightarrow> ulonglong \<Rightarrow> uintn \<Rightarrow> uintn \<Rightarrow> bool \<Rightarrow> kstatus"

section \<open>Disk references\<close>

definition SdpCreateDisk :: "sd_env \<Rightarrow> nat \<Rightarrow> sd_slot \<Rightarrow> sd_world \<Rightarrow> nat option \<times> sd_world" where
  "SdpCreateDisk env SlotAddress Slot w =
     (case AllocateDisk env of
        None \<Rightarrow> (None, w)
      | Some a \<Rightarrow>
          (Some a,
           w\<lparr>Disks := (Disks w)(a \<mapsto>
                \<lparr>Disk_Type = SdDeviceDisk, Disk_ReferenceCount = 1, Disk_Device = 0,
                 Disk_Parent = SlotAddress, Disk_Controller = Slot_Controller Slot,
                 Disk_ControllerLock = Slot_Lock Slot, Disk_Irp = None, Disk_IoBuffer = 0,
                 Disk_Flags = 0, Disk_BlockShift = 0, Disk_BlockCount = 0,
                 Disk_DiskToken = 0\<rparr>)\<rparr>))"

text \<open>\<open>MmFreeNonPagedPool\<close> takes the context out of the live memory.\<close>

definition SdpDestroyDisk :: "nat \<Rightarrow> sd_world \<Rightarrow> failure + sd_world" where
  "SdpDestroyDisk a w =
     (case Disks w a of
        None \<Rightarrow> Inl MemoryFault
      | Some d \<Rightarrow>
          Inr (w\<lparr>Disks := (Disks w)(a := None),
                 FreedDisks := FreedDisks w @ [(a, d)],
                 Trace := Trace w @ [MmFreeNonPagedPool a]\<rparr>))"

definition SdpDiskAddReference :: "nat \<Rightarrow> sd_world \<Rightarrow> failure + sd_world" where
  "SdpDiskAddReference a w =
     (case Disks w a of
        None \<Rightarrow> Inl MemoryFault
      | Some d \<Rightarrow>
          Inr (w\<lparr>Disks := (Disks w)(a \<mapsto> d\<lparr>Disk_ReferenceCount := Disk_ReferenceCount d + 1\<rparr>)\<rparr>))"

definition SdpDiskReleaseReference :: "nat \<Rightarrow> sd_world \<Rightarrow> failure + sd_world" where
  "SdpDiskReleaseReference a w =
     (case Disks w a of
        None \<Rightarrow> Inl MemoryFault
      | Some d \<Rightarrow>
          (let OldReferenceCount = Disk_ReferenceCount d;
               w1 = w\<lparr>Disks := (Disks w)(a \<mapsto> d\<lparr>Disk_ReferenceCount := OldReferenceCount + (- 1)\<rparr>)\<rparr>
           in if OldReferenceCount = 1 then SdpDestroyDisk a w1 else Inr w1))"

section \<open>Enumerating the child of a slot\<close>

text \<open>
  The block of \<open>SdpSlotQueryChildren\<close> that runs when an insertion is pending. It gives
  \<open>Some Status\<close> where the source jumps to \<open>SlotQueryChildrenEnd\<close> and \<open>None\<close> where
  it falls through, the value of \<open>NewDisk\<close>, the slot and the memory.
\<close>

definition enumerate_inserted_disk ::
  "sd_env \<Rightarrow> nat \<Rightarrow> nat \<Rightarrow> sd_slot \<Rightarrow> sd_world
     \<Rightarrow> failure + (kstatus option \<times> nat option \<times> sd_slot \<times> sd_world)" where
  "enumerate_inserted_disk env IrpDevice SlotAddress Slot w =
     (let w1 = w\<lparr>Trace := Trace w @ [KeDelayExecution SD_INSERTION_SETTLE_DELAY,
                                      CallSdInitializeController (Slot_Controller Slot) True]\<rparr>;
          St = SdInitializeController env (Slot_Controller Slot) True
      in if \<not> KSUCCESS St
         then Inr (Some (if St = STATUS_TIMEOUT then STATUS_SUCCESS else St), None, Slot, w1)
         else (case SdpCreateDisk env SlotAddress Slot w1 of
                 (None, w2) \<Rightarrow> Inr (Some STATUS_INSUFFICIENT_RESOURCES, None, Slot, w2)
               | (Some a, w2) \<Rightarrow>
                   (case Disks w2 a of
                      None \<Rightarrow> Inl MemoryFault
                    | Some d \<Rightarrow>
                        (case SdGetMediaParameters env (Disk_Controller d) of
                           (St1, Count, BlockSize) \<Rightarrow>
                             (let w3 = w2\<lparr>Trace := Trace w2 @ [CallSdGetMediaParameters (Disk_Controller d)]\<rparr>
                              in if \<not> KSUCCESS St1
                                 then Inr (Some (if St1 = STATUS_NO_MEDIA then STATUS_SUCCESS else St1),
                                           Some a, Slot, w3)
                                 else
                                   (let d1 = d\<lparr>Disk_BlockCount := Count,
                                               Disk_BlockShift := RtlCountTrailingZeros32 env BlockSize\<rparr>;
                                        St2 = SdInitializeDma env (Disk_Controller d1);
                                        w4 = w3\<lparr>Trace := Trace w3 @ [CallSdInitializeDma (Disk_Controller d1)]\<rparr>
                                    in if \<not> KSUCCESS St2 \<and> St2 = STATUS_NO_MEDIA
                                       then Inr (Some STATUS_SUCCESS, Some a, Slot,
                                                 w4\<lparr>Disks := (Disks w4)(a \<mapsto> d1)\<rparr>)
                                       else
                                         (let d2 = (if KSUCCESS St2
                                                    then d1\<lparr>Disk_Flags := Disk_Flags d1 OR SD_DISK_FLAG_DMA_SUPPORTED\<rparr>
                                                    else d1);
                                              d3 = d2\<lparr>Disk_Flags := Disk_Flags d2 OR SD_DISK_FLAG_MEDIA_PRESENT\<rparr>;
                                              w5 = w4\<lparr>Trace := Trace w4 @ [CallIoCreateDevice a IrpDevice]\<rparr>
                                          in case IoCreateDevice env a IrpDevice of
                                               (St3, NewDevice) \<Rightarrow>
                                                 if \<not> KSUCCESS St3
                                                 then Inr (Some St3, Some a, Slot,
                                                           w5\<lparr>Disks := (Disks w5)(a \<mapsto> d3)\<rparr>)
                                                 else Inr (None, None, Slot\<lparr>Slot_Disk := Some a\<rparr>,
                                                           w5\<lparr>Disks := (Disks w5)(a \<mapsto> d3\<lparr>Disk_Device := NewDevice\<rparr>)\<rparr>))))))))"

text \<open>The part after the insertion block: the merge of the one child, when there is a disk.\<close>

definition merge_slot_disk :: "sd_env \<Rightarrow> sd_slot \<Rightarrow> sd_world \<Rightarrow> failure + (kstatus \<times> sd_world)" where
  "merge_slot_disk env Slot w =
     (case Slot_Disk Slot of
        None \<Rightarrow> Inr (STATUS_SUCCESS, w)
      | Some p \<Rightarrow>
          (case Disks w p of
             None \<Rightarrow> Inl MemoryFault
           | Some d \<Rightarrow>
               (let St = IoMergeChildArrays env (Disk_Device d);
                    w1 = w\<lparr>Trace := Trace w @ [CallIoMergeChildArrays (Disk_Device d)]\<rparr>
                in if \<not> KSUCCESS St then Inr (St, w1)
                   else Inr (St, w1\<lparr>IrpChildren := IrpChildren w1 @ [Disk_Device d]\<rparr>))))"

definition SdpSlotQueryChildren ::
  "sd_env \<Rightarrow> nat \<Rightarrow> nat \<Rightarrow> sd_slot \<Rightarrow> sd_world \<Rightarrow> failure + (kstatus \<times> sd_slot \<times> sd_world)" where
  "SdpSlotQueryChildren env IrpDevice SlotAddress Slot w =
     (let OldFlags = Slot_Flags Slot;
          Slot1 = Slot\<lparr>Slot_Flags := OldFlags AND NOT (SD_SLOT_FLAG_INSERTION_PENDING
                                                        OR SD_SLOT_FLAG_REMOVAL_PENDING)\<rparr>
      in case (if OldFlags AND (SD_SLOT_FLAG_INSERTION_PENDING OR SD_SLOT_FLAG_REMOVAL_PENDING) \<noteq> 0
               then (case Slot_Disk Slot1 of
                       None \<Rightarrow> Inr (Slot1, w)
                     | Some p \<Rightarrow>
                         (case Disks w p of
                            None \<Rightarrow> Inl MemoryFault
                          | Some d \<Rightarrow>
                              Inr (Slot1\<lparr>Slot_Disk := None\<rparr>,
                                   w\<lparr>Disks := (Disks w)(p \<mapsto>
                                          d\<lparr>Disk_Flags := Disk_Flags d AND NOT SD_DISK_FLAG_MEDIA_PRESENT\<rparr>),
                                     Trace := Trace w @ [KeAcquireQueuedLock (Slot_Lock Slot1),
                                                         KeReleaseQueuedLock (Slot_Lock Slot1)]\<rparr>)))
               else Inr (Slot1, w)) of
           Inl f \<Rightarrow> Inl f
         | Inr (Slot2, w2) \<Rightarrow>
             (case (if OldFlags AND SD_SLOT_FLAG_INSERTION_PENDING \<noteq> 0
                    then enumerate_inserted_disk env IrpDevice SlotAddress Slot2 w2
                    else Inr (None, None, Slot2, w2)) of
                Inl f \<Rightarrow> Inl f
              | Inr (Exit, NewDisk, Slot3, w3) \<Rightarrow>
                  (case (case Exit of
                           Some St \<Rightarrow> Inr (St, w3)
                         | None \<Rightarrow> merge_slot_disk env Slot3 w3) of
                     Inl f \<Rightarrow> Inl f
                   | Inr (St, w4) \<Rightarrow>
                       (case NewDisk of
                          None \<Rightarrow> Inr (St, Slot3, w4)
                        | Some a \<Rightarrow>
                            (case SdpDiskReleaseReference a w4 of
                               Inl f \<Rightarrow> Inl f
                             | Inr w5 \<Rightarrow> Inr (St, Slot3, w5))))))"

section \<open>The DMA completion callback\<close>

text \<open>
  \<open>SdpDmaCompletion\<close>, with the disk context at address \<open>Context\<close>. The shifts are by
  \<open>Disk->BlockShift\<close>, which \<open>SdpSlotQueryChildren\<close> sets from the trailing zeros of a
  32-bit block size.
\<close>

definition SdpDmaCompletion ::
  "io_env \<Rightarrow> sd_env \<Rightarrow> nat \<Rightarrow> nat \<Rightarrow> uintn \<Rightarrow> kstatus \<Rightarrow> sd_world \<Rightarrow> failure + sd_world" where
  "SdpDmaCompletion ioenv env Controller Context BytesTransferred St w =
     (case Disks w Context of
        None \<Rightarrow> Inl MemoryFault
      | Some Disk \<Rightarrow>
          (case Disk_Irp Disk of
             None \<Rightarrow> Inl MemoryFault
           | Some p \<Rightarrow>
               (case Irps w p of
                  None \<Rightarrow> Inl MemoryFault
                | Some irp \<Rightarrow>
                    if \<not> KSUCCESS St
                    then (case IoCompleteIrp (SdDriver env) irp St of
                            Inl f \<Rightarrow> Inl f
                          | Inr (irp', signals) \<Rightarrow>
                              Inr (w\<lparr>Irps := (Irps w)(p \<mapsto> irp'),
                                     Trace := Trace w @ map (ObSignalObject p) signals\<rparr>))
                    else
                      (let rw = U_ReadWrite irp;
                           rw1 = rw\<lparr>IoBytesCompleted := IoBytesCompleted rw + BytesTransferred,
                                     NewIoOffset := NewIoOffset rw + ucast BytesTransferred\<rparr>;
                           irp1 = irp\<lparr>U_ReadWrite := rw1\<rparr>
                       in if IoBytesCompleted rw1 = IoSizeInBytes rw1
                          then (case IoCompleteIrp (SdDriver env) irp1 St of
                                  Inl f \<Rightarrow> Inl f
                                | Inr (irp', signals) \<Rightarrow>
                                    Inr (w\<lparr>Irps := (Irps w)(p \<mapsto> irp'),
                                           Trace := Trace w @ map (ObSignalObject p) signals\<rparr>))
                          else
                            (let IoOffset' = NewIoOffset rw1;
                                 BlockOffset = drop_bit (unat (Disk_BlockShift Disk)) IoOffset';
                                 IoSize = IoSizeInBytes rw1 - IoBytesCompleted rw1;
                                 BlockCount = drop_bit (unat (Disk_BlockShift Disk)) IoSize;
                                 Write = (MinorCode irp1 = IrpMinorIoWrite ioenv)
                             in Inr (w\<lparr>Irps := (Irps w)(p \<mapsto> irp1),
                                       Trace := Trace w @ [CallSdBlockIoDma (Disk_Controller Disk)
                                                             BlockOffset BlockCount (IoBuffer rw1)
                                                             (IoBytesCompleted rw1) Write Context]\<rparr>))))))"

section \<open>Polled block I/O\<close>

text \<open>
  The first loop of \<open>SdpPerformBlockIoPolled\<close>: the fragment and the offset within it at
  which the buffer's current offset lies. It walks the fragments from \<open>FragmentIndex\<close>;
  past the last fragment the read is out of range.
\<close>

fun find_start_fragment ::
  "io_buffer_fragment list \<Rightarrow> uintn \<Rightarrow> uintn \<Rightarrow> failure + (uintn \<times> uintn)" where
  "find_start_fragment frags IoBufferOffset FragmentIndex =
     (if IoBufferOffset = 0 then Inr (FragmentIndex, 0)
      else (case frags of
              [] \<Rightarrow> Inl MemoryFault
            | f # rest \<Rightarrow>
                if IoBufferOffset < Size f then Inr (FragmentIndex, IoBufferOffset)
                else find_start_fragment rest (IoBufferOffset - Size f) (FragmentIndex + 1)))"

record polled_state =
  BlockOffset :: ulonglong
  BlocksComplete :: uintn
  FragmentIndex :: uintn
  FragmentOffset :: uintn
  PolledCalls :: "sd_event list"

text \<open>
  The transfer loop, one iteration for each unit of fuel. It leaves with the controller's
  status when a call fails and with \<open>STATUS_SUCCESS\<close> when all blocks are done.
\<close>

fun polled_loop ::
  "nat \<Rightarrow> sd_env \<Rightarrow> sd_disk \<Rightarrow> io_buffer \<Rightarrow> bool \<Rightarrow> uintn \<Rightarrow> polled_state
     \<Rightarrow> failure + (kstatus \<times> polled_state)" where
  "polled_loop 0 env Disk Buf Write BlocksToComplete ps =
     (if BlocksComplete ps = BlocksToComplete then Inr (STATUS_SUCCESS, ps) else Inl OutOfFuel)"
| "polled_loop (Suc n) env Disk Buf Write BlocksToComplete ps =
     (if BlocksComplete ps = BlocksToComplete then Inr (STATUS_SUCCESS, ps)
      else if \<not> unat (FragmentIndex ps) < length (Fragment Buf) then Inl MemoryFault
      else
        (let Frag = Fragment Buf ! unat (FragmentIndex ps);
             VA = VirtualAddress Frag + FragmentOffset ps;
             FragmentSize = Size Frag - FragmentOffset ps;
             Shifted = drop_bit (unat (Disk_BlockShift Disk)) FragmentSize;
             BlockCount = (if BlocksToComplete - BlocksComplete ps < Shifted
                           then BlocksToComplete - BlocksComplete ps else Shifted);
             St = SdBlockIoPolled env (PolledCalls ps) (Disk_Controller Disk) (BlockOffset ps)
                    BlockCount VA Write;
             calls = PolledCalls ps @ [CallSdBlockIoPolled (Disk_Controller Disk) (BlockOffset ps)
                                         BlockCount VA Write]
         in if \<not> KSUCCESS St then Inr (St, ps\<lparr>PolledCalls := calls\<rparr>)
            else
              (let FragmentOffset' = FragmentOffset ps
                                      + push_bit (unat (Disk_BlockShift Disk)) BlockCount
               in polled_loop n env Disk Buf Write BlocksToComplete
                    (ps\<lparr>BlockOffset := BlockOffset ps + ucast BlockCount,
                        BlocksComplete := BlocksComplete ps + BlockCount,
                        FragmentIndex := (if FragmentOffset' \<ge> Size Frag
                                          then FragmentIndex ps + 1 else FragmentIndex ps),
                        FragmentOffset := (if FragmentOffset' \<ge> Size Frag then 0 else FragmentOffset'),
                        PolledCalls := calls\<rparr>))))"

text \<open>
  From \<open>PerformBlockIoPolledEnd\<close> on: the release of the lock, the copy back and the
  freeing of a substitute buffer, and the flush of the original buffer after a read.
\<close>

definition polled_epilogue ::
  "sd_env \<Rightarrow> sd_disk \<Rightarrow> io_buffer \<Rightarrow> io_buffer \<Rightarrow> bool \<Rightarrow> bool \<Rightarrow> kstatus \<Rightarrow> uintn
     \<Rightarrow> sd_event list \<Rightarrow> kstatus \<times> uintn \<times> sd_event list" where
  "polled_epilogue env Disk OriginalIoBuffer Buf Write LockHeld St Done evs =
     (let evs1 = (if LockHeld then evs @ [KeReleaseQueuedLock (Disk_ControllerLock Disk)] else evs);
          copies = (BufferAddress OriginalIoBuffer \<noteq> BufferAddress Buf \<and> \<not> Write \<and> Done \<noteq> 0);
          CopySize = push_bit (unat (Disk_BlockShift Disk)) Done;
          St1 = (if copies then MmCopyIoBuffer env OriginalIoBuffer 0 Buf 0 CopySize else St);
          Done1 = (if copies \<and> \<not> KSUCCESS St1 then 0 else Done);
          evs2 = (if copies
                  then evs1 @ [CallMmCopyIoBuffer (BufferAddress OriginalIoBuffer)
                                 (BufferAddress Buf) CopySize]
                  else evs1);
          evs3 = (if BufferAddress OriginalIoBuffer \<noteq> BufferAddress Buf
                  then evs2 @ [CallMmFreeIoBuffer (BufferAddress Buf)] else evs2);
          evs4 = (if \<not> Write \<and> Done1 \<noteq> 0
                  then evs3 @ map (\<lambda>f. CallMmFlushBuffer (VirtualAddress f) (Size f))
                                (Fragment OriginalIoBuffer)
                  else evs3)
      in (St1, Done1, evs4))"

text \<open>
  \<open>SdpPerformBlockIoPolled\<close> returns its status, what it stores in \<open>BlocksCompleted\<close>,
  and the calls it made.
\<close>

definition SdpPerformBlockIoPolled ::
  "nat \<Rightarrow> sd_env \<Rightarrow> sd_disk \<Rightarrow> io_buffer \<Rightarrow> ulonglong \<Rightarrow> uintn \<Rightarrow> bool \<Rightarrow> bool
     \<Rightarrow> failure + (kstatus \<times> uintn \<times> sd_event list)" where
  "SdpPerformBlockIoPolled fuel env Disk OriginalIoBuffer BlockAddress BlocksToComplete Write LockRequired =
     (let ByteCount = push_bit (unat (Disk_BlockShift Disk)) BlocksToComplete
      in case MmValidateIoBuffer env 0 (- 1) (push_bit (unat (Disk_BlockShift Disk)) 1)
                ByteCount False OriginalIoBuffer of
           (St, Buf) \<Rightarrow>
             if \<not> KSUCCESS St
             then Inr (polled_epilogue env Disk OriginalIoBuffer Buf Write False St 0 [])
             else
               (let copies_in = (BufferAddress Buf \<noteq> BufferAddress OriginalIoBuffer \<and> Write);
                    St1 = (if copies_in then MmCopyIoBuffer env Buf 0 OriginalIoBuffer 0 ByteCount
                           else St);
                    evs1 = (if copies_in
                            then [CallMmCopyIoBuffer (BufferAddress Buf)
                                    (BufferAddress OriginalIoBuffer) ByteCount]
                            else [])
                in if \<not> KSUCCESS St1
                   then Inr (polled_epilogue env Disk OriginalIoBuffer Buf Write False St1 0 evs1)
                   else if \<not> KSUCCESS (MmMapIoBuffer env Buf)
                   then Inr (polled_epilogue env Disk OriginalIoBuffer Buf Write False
                               (MmMapIoBuffer env Buf) 0 evs1)
                   else
                     (case find_start_fragment (Fragment Buf) (CurrentOffset Buf) 0 of
                        Inl f \<Rightarrow> Inl f
                      | Inr (StartIndex, StartOffset) \<Rightarrow>
                          (let evs2 = (if LockRequired
                                       then evs1 @ [KeAcquireQueuedLock (Disk_ControllerLock Disk)]
                                       else evs1)
                           in if Disk_Flags Disk AND SD_DISK_FLAG_MEDIA_PRESENT = 0
                              then Inr (polled_epilogue env Disk OriginalIoBuffer Buf Write
                                          LockRequired STATUS_NO_MEDIA 0 evs2)
                              else
                                (case polled_loop fuel env Disk Buf Write BlocksToComplete
                                        \<lparr>BlockOffset = BlockAddress, BlocksComplete = 0,
                                         FragmentIndex = StartIndex, FragmentOffset = StartOffset,
                                         PolledCalls = []\<rparr> of
                                   Inl f \<Rightarrow> Inl f
                                 | Inr (St2, ps) \<Rightarrow>
                                     Inr (polled_epilogue env Disk OriginalIoBuffer Buf Write
                                            LockRequired St2 (BlocksComplete ps)
                                            (evs2 @ PolledCalls ps)))))))"

section \<open>The traversal of a stack, as the specification words it\<close>

text \<open>The driver of slot \<open>i\<close> of an IRP stack (0 when the slot is empty).\<close>

definition entry_driver :: "irp_stack_entry list \<Rightarrow> nat \<Rightarrow> nat" where
  "entry_driver st i = (case DriverStackEntry (st ! i) of None \<Rightarrow> 0 | Some e \<Rightarrow> Driver e)"

text \<open>
  The dispatch sequence of a full send cycle as the specification gives it: the slots
  \<open>0 .. N-1\<close> in the down direction, then \<open>N-1 .. 0\<close> in the up direction.
\<close>

definition stack_traversal :: "irp_stack_entry list \<Rightarrow> driver_call list" where
  "stack_traversal st =
     map (\<lambda>i. DriverCall (word_of_nat i) IrpDown (entry_driver st i)) [0..<length st]
     @ map (\<lambda>i. DriverCall (word_of_nat i) IrpUp (entry_driver st i)) (rev [0..<length st])"

text \<open>The fields of the IRP that belong to the engine and steer the traversal.\<close>

definition engine_fields ::
  "irp_internal \<Rightarrow> irp_direction \<times> nat option \<times> irp_major_code \<times> irp_stack_entry list option
     \<times> ulong \<times> ulong \<times> irp_flag set" where
  "engine_fields irp =
     (Direction irp, CompletionRoutine irp, Internal_MajorCode irp, Stack irp,
      StackIndex irp, StackSize irp, Flags irp)"

text \<open>
  A dispatch routine that neither completes, pends nor continues the IRP, and leaves the
  engine's fields alone; and a stack in which every slot holds a driver with such a
  routine for the major code.
\<close>

definition transparent_dispatch :: "driver_dispatch \<Rightarrow> bool" where
  "transparent_dispatch f = (\<forall>c k irp. engine_fields (f c k irp) = engine_fields irp)"

definition transparent_stack :: "io_env \<Rightarrow> irp_major_code \<Rightarrow> irp_stack_entry list \<Rightarrow> bool" where
  "transparent_stack env mc st =
     (\<forall>s \<in> set st. \<exists>e f. DriverStackEntry s = Some e
          \<and> dispatch_routine (FunctionTable env (Driver e)) mc = Inr (Some f)
          \<and> transparent_dispatch f)"

text \<open>
  An IRP as \<open>IoCreateIrp\<close> and \<open>IopInitializeIrp\<close> leave it, with a valid minor code:
  what \<open>IoSendSynchronousIrp\<close> expects.
\<close>

definition sendable :: "io_env \<Rightarrow> irp_internal \<Rightarrow> bool" where
  "sendable env irp =
     (Magic irp = IRP_MAGIC_VALUE env \<and> Internal_Device irp = Device irp
      \<and> Internal_MajorCode irp = MajorCode irp \<and> MinorCode irp \<noteq> IrpMinorInvalid env
      \<and> Direction irp = IrpDown \<and> CompletionRoutine irp = None \<and> StackIndex irp = 0
      \<and> Flags irp \<inter> {IRP_COMPLETE, IRP_PENDING, IRP_DRIVER_STACK_COMPLETE} = {})"

text \<open>
  One dispatch as the specification has it: the IRP, at the slot and in the direction of
  the call, goes to the dispatch routine of the slot's driver for the major code, with the
  driver's context and the slot's IRP context, and comes back as the routine leaves it.
  Folded over a sequence of calls this gives the IRP after these dispatches, in their
  order.
\<close>

definition dispatch_slot ::
  "io_env \<Rightarrow> irp_major_code \<Rightarrow> irp_stack_entry list \<Rightarrow> driver_call \<Rightarrow> irp_internal
     \<Rightarrow> irp_internal" where
  "dispatch_slot env mc st c irp =
     (let here = irp\<lparr>StackIndex := CallIndex c, Direction := CallDirection c\<rparr>
      in case DriverStackEntry (st ! unat (CallIndex c)) of
           None \<Rightarrow> here
         | Some e \<Rightarrow>
             (case dispatch_routine (FunctionTable env (Driver e)) mc of
                Inl x \<Rightarrow> here
              | Inr None \<Rightarrow> here
              | Inr (Some f) \<Rightarrow>
                  f (DriverContext e) (IrpContext (st ! unat (CallIndex c))) here))"

section \<open>The clean-up of a failed creation, read off the calls\<close>

text \<open>The driver stack entries of a target chain in the order the second loop visits them.\<close>

fun chain_entries :: "device \<Rightarrow> driver_stack_entry list" where
  "chain_entries (DEVICE ty a s h sz tgt u) =
     (if ty \<noteq> ObjectDevice then h
      else (case tgt of None \<Rightarrow> h | Some t \<Rightarrow> h @ chain_entries t))"

text \<open>
  An entry whose driver has no \<open>CreateIrp\<close> hook, or whose hook succeeds on any IRP; and
  an entry whose hook fails on any IRP.
\<close>

definition hook_succeeds :: "io_env \<Rightarrow> ulong \<Rightarrow> driver_stack_entry \<Rightarrow> bool" where
  "hook_succeeds env fl e =
     (case CreateIrp (FunctionTable env (Driver e)) of
        None \<Rightarrow> True
      | Some hook \<Rightarrow> (\<forall>irp. KSUCCESS (fst (hook irp (DriverContext e) fl))))"

definition hook_fails :: "io_env \<Rightarrow> ulong \<Rightarrow> driver_stack_entry \<Rightarrow> bool" where
  "hook_fails env fl e =
     (case CreateIrp (FunctionTable env (Driver e)) of
        None \<Rightarrow> False
      | Some hook \<Rightarrow> (\<forall>irp. \<not> KSUCCESS (fst (hook irp (DriverContext e) fl))))"

text \<open>The stack entries for which a \<open>DestroyIrp\<close> hook was called, in the order of the calls.\<close>

fun destroy_call_entry :: "pool_event \<Rightarrow> nat option" where
  "destroy_call_entry (CallDestroyIrp d c i k) = Some i"
| "destroy_call_entry (CallCreateIrp d c i) = None"
| "destroy_call_entry FreeIrpStack = None"
| "destroy_call_entry ReleaseIrp = None"

definition destroyed_entries :: "pool_event list \<Rightarrow> nat list" where
  "destroyed_entries evs = List.map_filter destroy_call_entry evs"

text \<open>A stack whose first \<open>n\<close> slots hold a driver stack entry and whose other slots are null.\<close>

definition filled :: "nat \<Rightarrow> irp_stack_entry list \<Rightarrow> bool" where
  "filled n st =
     ((\<forall>j<n. DriverStackEntry (st ! j) \<noteq> None)
      \<and> (\<forall>j. n \<le> j \<and> j < length st \<longrightarrow> DriverStackEntry (st ! j) = None))"


section \<open>The lock around a helper's submission, read off its events\<close>

text \<open>The same device in another state.\<close>

fun in_state :: "device_state \<Rightarrow> device \<Rightarrow> device" where
  "in_state s' (DEVICE ty a s h sz tgt u) = DEVICE ty a s' h sz tgt u"

fun only_destroyed :: "helper_event list \<Rightarrow> bool" where
  "only_destroyed [] = True"
| "only_destroyed (Destroyed c # r) = only_destroyed r"
| "only_destroyed (AcquireSharedLock b # r) = False"
| "only_destroyed (ReleaseSharedLock b # r) = False"
| "only_destroyed (Created c # r) = False"
| "only_destroyed (Sent c # r) = False"

fun released_after_submission :: "nat \<Rightarrow> helper_event list \<Rightarrow> bool" where
  "released_after_submission a [] = False"
| "released_after_submission a (Created c # r) = released_after_submission a r"
| "released_after_submission a (Sent c # r) = released_after_submission a r"
| "released_after_submission a (ReleaseSharedLock b # r) = (b = a \<and> only_destroyed r)"
| "released_after_submission a (AcquireSharedLock b # r) = False"
| "released_after_submission a (Destroyed c # r) = False"

text \<open>
  The shared lock of the device at \<open>a\<close> is taken first, the IRP is created and sent while
  it is held, and after its release only the destruction of the IRP follows.
\<close>

fun holds_lock_during_submission :: "nat \<Rightarrow> helper_event list \<Rightarrow> bool" where
  "holds_lock_during_submission a [] = False"
| "holds_lock_during_submission a (AcquireSharedLock b # r) = (b = a \<and> released_after_submission a r)"
| "holds_lock_during_submission a (ReleaseSharedLock b # r) = False"
| "holds_lock_during_submission a (Created c # r) = False"
| "holds_lock_during_submission a (Sent c # r) = False"
| "holds_lock_during_submission a (Destroyed c # r) = False"

fun takes_no_lock :: "helper_event list \<Rightarrow> bool" where
  "takes_no_lock [] = True"
| "takes_no_lock (AcquireSharedLock b # r) = False"
| "takes_no_lock (ReleaseSharedLock b # r) = False"
| "takes_no_lock (Created c # r) = takes_no_lock r"
| "takes_no_lock (Sent c # r) = takes_no_lock r"
| "takes_no_lock (Destroyed c # r) = takes_no_lock r"

fun sends_an_irp :: "helper_event list \<Rightarrow> bool" where
  "sends_an_irp [] = False"
| "sends_an_irp (Sent c # r) = True"
| "sends_an_irp (AcquireSharedLock b # r) = sends_an_irp r"
| "sends_an_irp (ReleaseSharedLock b # r) = sends_an_irp r"
| "sends_an_irp (Created c # r) = sends_an_irp r"
| "sends_an_irp (Destroyed c # r) = sends_an_irp r"

section \<open>The controller lock, read off the calls of the polled path\<close>

fun is_lock_call :: "sd_event \<Rightarrow> bool" where
  "is_lock_call (KeAcquireQueuedLock l) = True"
| "is_lock_call (KeReleaseQueuedLock l) = True"
| "is_lock_call (KeDelayExecution t) = False"
| "is_lock_call (CallSdInitializeController c r) = False"
| "is_lock_call (CallSdGetMediaParameters c) = False"
| "is_lock_call (CallSdInitializeDma c) = False"
| "is_lock_call (CallIoCreateDevice d p) = False"
| "is_lock_call (CallIoMergeChildArrays d) = False"
| "is_lock_call (MmFreeNonPagedPool a) = False"
| "is_lock_call (ObSignalObject p s) = False"
| "is_lock_call (CallSdBlockIoDma c off n b boff wr ctx) = False"
| "is_lock_call (CallSdBlockIoPolled c off n va wr) = False"
| "is_lock_call (CallMmCopyIoBuffer dst src n) = False"
| "is_lock_call (CallMmFreeIoBuffer b) = False"
| "is_lock_call (CallMmFlushBuffer va n) = False"

section \<open>Example configurations\<close>

text \<open>
  Scenario S1 of the specification: a device stack of three drivers whose dispatch routines
  return at once without touching the IRP, and an Open IRP on it. The numeric values of
  the constants are examples.
\<close>

definition transparent_table :: driver_function_table where
  "transparent_table =
     \<lparr>CreateIrp = None, DestroyIrp = False,
      DispatchStateChange = Some (\<lambda>c k irp. irp),
      DispatchOpen = Some (\<lambda>c k irp. irp),
      DispatchClose = Some (\<lambda>c k irp. irp),
      DispatchIo = Some (\<lambda>c k irp. irp),
      DispatchSystemControl = Some (\<lambda>c k irp. irp),
      DispatchUserControl = Some (\<lambda>c k irp. irp)\<rparr>"

definition example_read_write :: irp_read_write where
  "example_read_write =
     \<lparr>IoBuffer = 0, IoFlags = 0, IoOffset = 0, IoSizeInBytes = 0, IoBytesCompleted = 0,
      NewIoOffset = 0, FileProperties = None\<rparr>"

definition example_stack :: "irp_stack_entry list" where
  "example_stack =
     [\<lparr>DriverStackEntry = Some \<lparr>Driver = 1, DriverContext = 10\<rparr>, IrpContext = 0\<rparr>,
      \<lparr>DriverStackEntry = Some \<lparr>Driver = 2, DriverContext = 20\<rparr>, IrpContext = 0\<rparr>,
      \<lparr>DriverStackEntry = Some \<lparr>Driver = 3, DriverContext = 30\<rparr>, IrpContext = 0\<rparr>]"

definition example_irp :: irp_internal where
  "example_irp =
     \<lparr>Device = 100, MajorCode = IrpMajorOpen, MinorCode = 0x2001, Direction = IrpDown,
      Status = STATUS_NOT_HANDLED, CompletionRoutine = None, CompletionContext = 0,
      U_Open = 0, U_Close = 0, U_ReadWrite = example_read_write, U_SystemControl = 0,
      U_UserControl = \<lparr>FromKernelMode = True, UserBuffer = 0, UserBufferSize = 0\<rparr>,
      Magic = 0x4952, Internal_Device = 100, Internal_MajorCode = IrpMajorOpen,
      Stack = Some example_stack, StackIndex = 0, StackSize = 3, Flags = {}\<rparr>"

definition example_env :: io_env where
  "example_env =
     \<lparr>FunctionTable = (\<lambda>d. transparent_table),
      ObCreateObject = Some example_irp,
      MmAllocateNonPagedPool_succeeds = True,
      CompletionRoutines = (\<lambda>r irp c. irp),
      ObWaitOnObject = (\<lambda>irp. (STATUS_SUCCESS, irp)),
      IRP_MAGIC_VALUE = 0x4952,
      IrpMinorInvalid = 0,
      IrpMinorOpen = 0x2001,
      IrpMinorClose = 0x3001,
      IrpMinorIoRead = 0x4001,
      IrpMinorIoWrite = 0x4002,
      IrpMinorSystemControlInvalid = 0x5000,
      IrpMinorSystemControlWriteFileProperties = 0x5002,
      IrpMinorSystemControlDelete = 0x5003\<rparr>"

text \<open>
  A device with the three drivers of the example stack, in the started state, and the same
  device after its removal.
\<close>

definition example_device :: device where
  "example_device =
     DEVICE ObjectDevice 100 (DeviceStateOther 1)
       [\<lparr>Driver = 1, DriverContext = 10\<rparr>, \<lparr>Driver = 2, DriverContext = 20\<rparr>,
        \<lparr>Driver = 3, DriverContext = 30\<rparr>]
       3 None False"

definition removed_device :: device where
  "removed_device =
     DEVICE ObjectDevice 100 DeviceRemoved
       [\<lparr>Driver = 1, DriverContext = 10\<rparr>, \<lparr>Driver = 2, DriverContext = 20\<rparr>,
        \<lparr>Driver = 3, DriverContext = 30\<rparr>]
       3 None False"




text \<open>The example environment when the pool allocation of the IRP stack fails.\<close>

definition exhausted_env :: io_env where
  "exhausted_env = example_env\<lparr>MmAllocateNonPagedPool_succeeds := False\<rparr>"






text \<open>
  A driver that answers on the way down by pending the IRP (an I/O IRP after recording the
  whole transfer as done), and whose other execution context completes the IRP with
  success while the sender waits.
\<close>

definition pend_on_the_way_down :: "nat \<Rightarrow> irp_internal \<Rightarrow> irp_internal" where
  "pend_on_the_way_down d irp =
     (if Direction irp = IrpDown
      then (case IoPendIrp d irp of Inl f \<Rightarrow> irp | Inr (irp', signals) \<Rightarrow> irp')
      else irp)"

definition record_transfer :: "irp_internal \<Rightarrow> irp_internal" where
  "record_transfer irp =
     irp\<lparr>U_ReadWrite := (U_ReadWrite irp)
            \<lparr>IoBytesCompleted := IoSizeInBytes (U_ReadWrite irp),
             NewIoOffset := IoOffset (U_ReadWrite irp) + ucast (IoSizeInBytes (U_ReadWrite irp))\<rparr>\<rparr>"

definition deferring_table :: "nat \<Rightarrow> driver_function_table" where
  "deferring_table d =
     \<lparr>CreateIrp = None, DestroyIrp = False,
      DispatchStateChange = Some (\<lambda>c k irp. pend_on_the_way_down d irp),
      DispatchOpen = Some (\<lambda>c k irp. pend_on_the_way_down d irp),
      DispatchClose = Some (\<lambda>c k irp. pend_on_the_way_down d irp),
      DispatchIo = Some (\<lambda>c k irp. pend_on_the_way_down d
                                     (if Direction irp = IrpDown then record_transfer irp else irp)),
      DispatchSystemControl = Some (\<lambda>c k irp. pend_on_the_way_down d irp),
      DispatchUserControl = Some (\<lambda>c k irp. pend_on_the_way_down d irp)\<rparr>"

definition deferring_env :: io_env where
  "deferring_env =
     example_env
       \<lparr>FunctionTable := deferring_table,
        ObWaitOnObject :=
          (\<lambda>irp. (STATUS_SUCCESS,
                  case IoCompleteIrp 1 irp STATUS_SUCCESS of
                    Inl f \<Rightarrow> irp
                  | Inr (irp', signals) \<Rightarrow> irp'))\<rparr>"

definition disk_device :: device where
  "disk_device =
     DEVICE ObjectDevice 200 (DeviceStateOther 1) [\<lparr>Driver = 1, DriverContext = 10\<rparr>] 1 None False"

definition removed_disk_device :: device where
  "removed_disk_device =
     DEVICE ObjectDevice 200 DeviceRemoved [\<lparr>Driver = 1, DriverContext = 10\<rparr>] 1 None False"

text \<open>A read of 4096 bytes at offset 8192 from a file of 10000 bytes.\<close>

definition example_read :: irp_read_write where
  "example_read =
     \<lparr>IoBuffer = 7, IoFlags = 0, IoOffset = 8192, IoSizeInBytes = 4096, IoBytesCompleted = 0,
      NewIoOffset = 0, FileProperties = Some \<lparr>FileSize = 10000\<rparr>\<rparr>"

text \<open>
  An SD slot with an insertion pending and no disk, and a controller library that sees a
  card at initialization and none any more when asked for the media parameters.
\<close>

definition example_slot :: sd_slot where
  "example_slot =
     \<lparr>Slot_Type = SdDeviceSlot, Slot_Device = 300, Slot_Controller = 77,
      Slot_ControllerBase = 0xF000, Slot_Resource = 0, Slot_ChildIndex = 0, Slot_Parent = 400,
      Slot_Disk = None, Slot_Flags = SD_SLOT_FLAG_INSERTION_PENDING, Slot_Lock = 88\<rparr>"

definition empty_world :: sd_world where
  "empty_world =
     \<lparr>Disks = Map.empty, Irps = Map.empty, FreedDisks = [], IrpChildren = [], Trace = []\<rparr>"

text \<open>
  A read of two blocks of 512 bytes into a buffer that is not aligned to the block size:
  \<open>MmValidateIoBuffer\<close> substitutes a buffer of two fragments of one block each. The
  controller transfers the first block and fails on the second. In the second environment
  the buffer needs no substitute.
\<close>

definition polled_disk :: sd_disk where
  "polled_disk =
     \<lparr>Disk_Type = SdDeviceDisk, Disk_ReferenceCount = 2, Disk_Device = 500, Disk_Parent = 300,
      Disk_Controller = 77, Disk_ControllerLock = 88, Disk_Irp = None, Disk_IoBuffer = 0,
      Disk_Flags = SD_DISK_FLAG_MEDIA_PRESENT, Disk_BlockShift = 9, Disk_BlockCount = 1024,
      Disk_DiskToken = 0\<rparr>"

definition unaligned_buffer :: io_buffer where
  "unaligned_buffer =
     \<lparr>BufferAddress = 1,
      Fragment = [\<lparr>VirtualAddress = 0x1001, PhysicalAddress = 0x1001, Size = 1024\<rparr>],
      CurrentOffset = 0\<rparr>"

definition substitute_buffer :: io_buffer where
  "substitute_buffer =
     \<lparr>BufferAddress = 2,
      Fragment = [\<lparr>VirtualAddress = 0x8000, PhysicalAddress = 0x8000, Size = 512\<rparr>,
                  \<lparr>VirtualAddress = 0xA000, PhysicalAddress = 0xA000, Size = 512\<rparr>],
      CurrentOffset = 0\<rparr>"

definition vanishing_card_env :: sd_env where
  "vanishing_card_env =
     \<lparr>SdDriver = 1,
      SdInitializeController = (\<lambda>c reset. STATUS_SUCCESS),
      AllocateDisk = Some 600,
      SdGetMediaParameters = (\<lambda>c. (STATUS_NO_MEDIA, 0, 0)),
      RtlCountTrailingZeros32 = (\<lambda>x. 9),
      SdInitializeDma = (\<lambda>c. STATUS_SUCCESS),
      IoCreateDevice = (\<lambda>d parent. (STATUS_SUCCESS, 500)),
      IoMergeChildArrays = (\<lambda>d. STATUS_SUCCESS),
      MmValidateIoBuffer = (\<lambda>lo hi align bytes flag b. (STATUS_SUCCESS, substitute_buffer)),
      MmCopyIoBuffer = (\<lambda>dst doff src soff bytes. STATUS_SUCCESS),
      MmMapIoBuffer = (\<lambda>b. STATUS_SUCCESS),
      SdBlockIoPolled = (\<lambda>before c off n va wr.
                           if before = [] then STATUS_SUCCESS else STATUS_DEVICE_IO_ERROR)\<rparr>"

definition failing_second_block_env :: sd_env where
  "failing_second_block_env = vanishing_card_env"

definition in_place_env :: sd_env where
  "in_place_env =
     vanishing_card_env\<lparr>MmValidateIoBuffer := (\<lambda>lo hi align bytes flag b. (STATUS_SUCCESS, b))\<rparr>"

text \<open>
  A disk with a write of 4096 bytes at offset 4096 in flight on the SD driver's slot of the
  IRP, pended, of which nothing is done yet.
\<close>

definition dma_irp :: irp_internal where
  "dma_irp =
     example_irp
       \<lparr>MajorCode := IrpMajorIo, Internal_MajorCode := IrpMajorIo, MinorCode := 0x4002,
        U_ReadWrite := \<lparr>IoBuffer = 7, IoFlags = 0, IoOffset = 4096, IoSizeInBytes = 4096,
                         IoBytesCompleted = 0, NewIoOffset = 4096, FileProperties = None\<rparr>,
        Flags := {IRP_ACTIVE, IRP_PENDING}\<rparr>"

definition dma_world :: sd_world where
  "dma_world =
     \<lparr>Disks = [600 \<mapsto> polled_disk\<lparr>Disk_Irp := Some 700, Disk_IoBuffer := 7\<rparr>],
      Irps = [700 \<mapsto> dma_irp], FreedDisks = [], IrpChildren = [], Trace = []\<rparr>"

text \<open>A controller library that loses the card between the media parameters and the DMA set-up.\<close>

definition dma_less_env :: sd_env where
  "dma_less_env =
     vanishing_card_env
       \<lparr>SdGetMediaParameters := (\<lambda>c. (STATUS_SUCCESS, 1024, 512)),
        SdInitializeDma := (\<lambda>c. STATUS_NO_MEDIA)\<rparr>"

section \<open>Word arithmetic on the stack index\<close>

lemma unat_succ_less:
  fixes w n :: "'a::len word"
  assumes "w < n"
  shows "unat (w + 1) = unat w + 1"
proof -
  have "unat w < unat n" using assms by (simp add: word_less_nat_alt)
  moreover have "unat n < 2 ^ LENGTH('a)" by (rule unsigned_less)
  ultimately have "unat w + 1 < 2 ^ LENGTH('a)" by linarith
  then have "unat w + unat (1::'a word) < 2 ^ LENGTH('a)" by simp
  then have "unat (w + 1) = unat w + unat (1::'a word)" by (rule unat_add_lem [THEN iffD1])
  then show ?thesis by simp
qed

lemma word_succ_less:
  fixes w n :: "'a::len word"
  shows "w < n \<Longrightarrow> (w + 1 < n) = (unat w + 1 < unat n)"
  by (simp add: word_less_nat_alt unat_succ_less)

lemma unat_pred:
  "w \<noteq> 0 \<Longrightarrow> unat (w - 1 :: 'a::len word) = unat w - 1"
  by (simp add: unat_minus_one)

section \<open>A mismatched driver changes nothing\<close>

text \<open>
  Claim C10. When \<open>IoCompleteIrp\<close>, \<open>IoPendIrp\<close> or \<open>IoContinueIrp\<close> is called with
  a driver other than the one in the IRP's current stack slot, the call returns with the
  IRP exactly as it was (no flag, no status, no movement of the stack index or direction)
  and makes no \<open>ObSignalObject\<close> call.
\<close>

theorem mismatched_driver_is_noop:
  assumes "current_driver_stack_entry irp = Inr e" and "Driver e \<noteq> Drv"
  shows "IoCompleteIrp Drv irp StatusCode = Inr (irp, [])
         \<and> IoPendIrp Drv irp = Inr (irp, [])
         \<and> IoContinueIrp Drv irp = Inr (irp, [])"
  using assms by (simp add: IoCompleteIrp_def IoPendIrp_def IoContinueIrp_def)

theorem mismatched_driver_is_noop_witness:
  "current_driver_stack_entry example_irp = Inr \<lparr>Driver = 1, DriverContext = 10\<rparr>
   \<and> Driver \<lparr>Driver = 1, DriverContext = 10\<rparr> \<noteq> 2
   \<and> IoCompleteIrp 2 example_irp STATUS_SUCCESS = Inr (example_irp, [])
   \<and> IoPendIrp 2 example_irp = Inr (example_irp, [])
   \<and> IoContinueIrp 2 example_irp = Inr (example_irp, [])"
proof -
  have c: "current_driver_stack_entry example_irp = Inr \<lparr>Driver = 1, DriverContext = 10\<rparr>"
    by (simp add: current_driver_stack_entry_def example_irp_def example_stack_def)
  have d: "Driver \<lparr>Driver = 1, DriverContext = 10\<rparr> \<noteq> 2" by simp
  show ?thesis
    using c d mismatched_driver_is_noop [OF c d, of STATUS_SUCCESS] by simp
qed

section \<open>The traversal\<close>

text \<open>
  The slot and the direction of the call are those of the dispatch, whatever the IRP said
  before.
\<close>

lemma dispatch_slot_index [simp]:
  "dispatch_slot env mc st c (irp\<lparr>StackIndex := a\<rparr>) = dispatch_slot env mc st c irp"
  by (simp add: dispatch_slot_def)

lemma dispatch_slot_direction [simp]:
  "dispatch_slot env mc st c (irp\<lparr>Direction := a\<rparr>) = dispatch_slot env mc st c irp"
  by (simp add: dispatch_slot_def)

lemma call_transparent:
  assumes "transparent_stack env mc st" "Stack irp = Some st"
    "unat (StackIndex irp) < length st" "Internal_MajorCode irp = mc"
  shows "IopCallDriver env irp
           = Inr (dispatch_slot env mc st
                    (DriverCall (StackIndex irp) (Direction irp)
                       (entry_driver st (unat (StackIndex irp)))) irp,
                  [DriverCall (StackIndex irp) (Direction irp)
                     (entry_driver st (unat (StackIndex irp)))])
         \<and> engine_fields (dispatch_slot env mc st
                    (DriverCall (StackIndex irp) (Direction irp)
                       (entry_driver st (unat (StackIndex irp)))) irp) = engine_fields irp"
proof -
  have "st ! unat (StackIndex irp) \<in> set st" using assms(3) by simp
  with assms(1) obtain e f where
    e: "DriverStackEntry (st ! unat (StackIndex irp)) = Some e"
    and f: "dispatch_routine (FunctionTable env (Driver e)) mc = Inr (Some f)"
    and t: "transparent_dispatch f"
    unfolding transparent_stack_def by blast
  have c: "current_driver_stack_entry irp = Inr e"
    using assms(2,3) e by (simp add: current_driver_stack_entry_def)
  show ?thesis
    using c f t assms(2,4) e
    by (simp add: IopCallDriver_def entry_driver_def transparent_dispatch_def dispatch_slot_def)
qed

lemma fold_dispatch_index:
  "calls \<noteq> [] \<Longrightarrow>
   fold (dispatch_slot env mc st) calls (irp\<lparr>StackIndex := a\<rparr>)
     = fold (dispatch_slot env mc st) calls irp"
  by (cases calls) simp_all

lemma fold_dispatch_direction:
  "calls \<noteq> [] \<Longrightarrow>
   fold (dispatch_slot env mc st) calls (irp\<lparr>Direction := a\<rparr>)
     = fold (dispatch_slot env mc st) calls irp"
  by (cases calls) simp_all

text \<open>The upward half: from slot \<open>i\<close> in direction up, the slots \<open>i .. 0\<close> are called.\<close>

lemma pump_up:
  assumes "transparent_stack env mc st"
  shows "Stack irp = Some st \<Longrightarrow> length st = unat (StackSize irp) \<Longrightarrow>
         Internal_MajorCode irp = mc \<Longrightarrow> Direction irp = IrpUp \<Longrightarrow>
         unat (StackIndex irp) = i \<Longrightarrow> i < length st \<Longrightarrow>
         IRP_PENDING \<notin> Flags irp \<Longrightarrow> IRP_DRIVER_STACK_COMPLETE \<notin> Flags irp \<Longrightarrow>
         i < fuel \<Longrightarrow>
         \<exists>irp'. pump_loop fuel env irp
              = Inr (irp', map (\<lambda>j. DriverCall (word_of_nat j) IrpUp (entry_driver st j)) (rev [0..<Suc i]))
           \<and> engine_fields irp' = engine_fields (irp\<lparr>StackIndex := 0,
                  Flags := insert IRP_DRIVER_STACK_COMPLETE (Flags irp)\<rparr>)
           \<and> irp' = (fold (dispatch_slot env mc st)
                       (map (\<lambda>j. DriverCall (word_of_nat j) IrpUp (entry_driver st j)) (rev [0..<Suc i]))
                       irp)\<lparr>Flags := insert IRP_DRIVER_STACK_COMPLETE (Flags irp)\<rparr>"
proof (induction i arbitrary: irp fuel)
  case 0
  then obtain n where fuel: "fuel = Suc n" by (cases fuel) auto
  let ?c = "DriverCall (StackIndex irp) IrpUp (entry_driver st 0)"
  let ?irp1 = "dispatch_slot env mc st ?c irp"
  from call_transparent[OF assms 0(1) _ 0(3)] 0 have
    c: "IopCallDriver env irp = Inr (?irp1, [?c])"
    and e: "engine_fields ?irp1 = engine_fields irp" by auto
  have z: "StackIndex irp = 0" using 0(5) by (simp add: unat_eq_0)
  have a: "IopAdvanceIrpStackLocation ?irp1 = ?irp1\<lparr>Flags := insert IRP_DRIVER_STACK_COMPLETE (Flags ?irp1)\<rparr>"
    using e 0(4) z by (simp add: IopAdvanceIrpStackLocation_def engine_fields_def)
  show ?case using c e a z 0(7,8)
    by (cases n) (auto simp: fuel engine_fields_def)
next
  case (Suc i)
  then obtain n where fuel: "fuel = Suc n" and n: "i < n" by (cases fuel) auto
  let ?c = "DriverCall (StackIndex irp) IrpUp (entry_driver st (Suc i))"
  let ?irp1 = "dispatch_slot env mc st ?c irp"
  from call_transparent[OF assms Suc(2) _ Suc(4)] Suc have
    c: "IopCallDriver env irp = Inr (?irp1, [?c])"
    and e: "engine_fields ?irp1 = engine_fields irp" by auto
  have nz: "StackIndex irp \<noteq> 0" using Suc(6) by auto
  let ?irp2 = "?irp1\<lparr>StackIndex := StackIndex ?irp1 - 1\<rparr>"
  have a: "IopAdvanceIrpStackLocation ?irp1 = ?irp2"
    using e Suc(5) nz by (simp add: IopAdvanceIrpStackLocation_def engine_fields_def)
  have u: "unat (StackIndex ?irp2) = i"
    using e nz Suc(6) by (simp add: engine_fields_def unat_pred)
  have w: "StackIndex irp = word_of_nat (Suc i)"
    by (subst Suc(6)[symmetric]) simp
  let ?rest = "map (\<lambda>j. DriverCall (word_of_nat j) IrpUp (entry_driver st j)) (rev [0..<Suc i])"
  have ne: "?rest \<noteq> []" by simp
  from Suc.IH[of ?irp2 n] Suc.prems e u n obtain irp' where
    p: "pump_loop n env ?irp2 = Inr (irp', ?rest)"
    and e': "engine_fields irp' = engine_fields (?irp2\<lparr>StackIndex := 0,
                  Flags := insert IRP_DRIVER_STACK_COMPLETE (Flags ?irp2)\<rparr>)"
    and r: "irp' = (fold (dispatch_slot env mc st) ?rest ?irp2)
                     \<lparr>Flags := insert IRP_DRIVER_STACK_COMPLETE (Flags ?irp2)\<rparr>"
    by (auto simp: engine_fields_def)
  have r': "irp' = (fold (dispatch_slot env mc st) ?rest ?irp1)
                     \<lparr>Flags := insert IRP_DRIVER_STACK_COMPLETE (Flags irp)\<rparr>"
    using r e fold_dispatch_index[OF ne, of env mc st "StackIndex ?irp1 - 1" ?irp1]
    by (simp add: engine_fields_def)
  have l: "rev [0..<Suc (Suc i)] = Suc i # rev [0..<Suc i]" by simp
  show ?case unfolding l using c e a p e' r' w Suc(8,9)
    by (auto simp: fuel engine_fields_def)
qed

text \<open>The downward half, which turns at the last slot and continues with the upward half.\<close>

lemma pump_down:
  assumes "transparent_stack env mc st"
  shows "Stack irp = Some st \<Longrightarrow> length st = unat (StackSize irp) \<Longrightarrow>
         Internal_MajorCode irp = mc \<Longrightarrow> Direction irp = IrpDown \<Longrightarrow>
         unat (StackIndex irp) = i \<Longrightarrow> i < length st \<Longrightarrow> k = length st - i \<Longrightarrow>
         IRP_PENDING \<notin> Flags irp \<Longrightarrow> IRP_DRIVER_STACK_COMPLETE \<notin> Flags irp \<Longrightarrow>
         2 * length st - i \<le> fuel \<Longrightarrow>
         \<exists>irp'. pump_loop fuel env irp
              = Inr (irp', map (\<lambda>j. DriverCall (word_of_nat j) IrpDown (entry_driver st j)) [i..<length st]
                          @ map (\<lambda>j. DriverCall (word_of_nat j) IrpUp (entry_driver st j)) (rev [0..<length st]))
           \<and> engine_fields irp' = engine_fields (irp\<lparr>Direction := IrpUp, StackIndex := 0,
                  Flags := insert IRP_DRIVER_STACK_COMPLETE (Flags irp)\<rparr>)
           \<and> irp' = (fold (dispatch_slot env mc st)
                       (map (\<lambda>j. DriverCall (word_of_nat j) IrpDown (entry_driver st j)) [i..<length st]
                          @ map (\<lambda>j. DriverCall (word_of_nat j) IrpUp (entry_driver st j)) (rev [0..<length st]))
                       irp)\<lparr>Flags := insert IRP_DRIVER_STACK_COMPLETE (Flags irp)\<rparr>"
proof (induction k arbitrary: irp fuel i)
  case 0
  then show ?case by simp
next
  case (Suc k)
  then obtain n where fuel: "fuel = Suc n" and n: "2 * length st - Suc i \<le> n" by (cases fuel) auto
  let ?c = "DriverCall (StackIndex irp) IrpDown (entry_driver st i)"
  let ?irp1 = "dispatch_slot env mc st ?c irp"
  let ?ups = "map (\<lambda>j. DriverCall (word_of_nat j) IrpUp (entry_driver st j)) (rev [0..<length st])"
  from call_transparent[OF assms Suc(2) _ Suc(4)] Suc have
    c: "IopCallDriver env irp = Inr (?irp1, [?c])"
    and e: "engine_fields ?irp1 = engine_fields irp" by auto
  have w: "StackIndex irp = word_of_nat i"
    by (subst Suc(6)[symmetric]) simp
  have lt: "StackIndex irp < StackSize irp"
    using Suc.prems by (simp add: word_less_nat_alt)
  have up: "[i..<length st] = i # [Suc i..<length st]"
    using Suc.prems by (simp add: upt_conv_Cons)
  have ne: "?ups \<noteq> []" using Suc.prems by auto
  show ?case
  proof (cases "Suc i < length st")
    case True
    let ?irp2 = "?irp1\<lparr>StackIndex := StackIndex ?irp1 + 1\<rparr>"
    let ?rest = "map (\<lambda>j. DriverCall (word_of_nat j) IrpDown (entry_driver st j)) [Suc i..<length st] @ ?ups"
    have a: "IopAdvanceIrpStackLocation ?irp1 = ?irp2"
      using e Suc.prems True lt
      by (simp add: IopAdvanceIrpStackLocation_def engine_fields_def word_succ_less)
    have u: "unat (StackIndex ?irp2) = Suc i"
      using e lt Suc.prems by (simp add: engine_fields_def unat_succ_less)
    have k: "k = length st - Suc i" using Suc.prems by arith
    from Suc.IH[of ?irp2 "Suc i" n] Suc.prems e u n True k obtain irp' where
      p: "pump_loop n env ?irp2 = Inr (irp', ?rest)"
      and e': "engine_fields irp' = engine_fields (?irp2\<lparr>Direction := IrpUp, StackIndex := 0,
                    Flags := insert IRP_DRIVER_STACK_COMPLETE (Flags ?irp2)\<rparr>)"
      and r: "irp' = (fold (dispatch_slot env mc st) ?rest ?irp2)
                       \<lparr>Flags := insert IRP_DRIVER_STACK_COMPLETE (Flags ?irp2)\<rparr>"
      by (auto simp: engine_fields_def)
    have rne: "?rest \<noteq> []" using ne by simp
    have r': "irp' = (fold (dispatch_slot env mc st) ?rest ?irp1)
                       \<lparr>Flags := insert IRP_DRIVER_STACK_COMPLETE (Flags irp)\<rparr>"
      using r e fold_dispatch_index[OF rne, of env mc st "StackIndex ?irp1 + 1" ?irp1]
      by (simp add: engine_fields_def)
    show ?thesis unfolding up using c e a p e' r' w Suc.prems(8,9)
      by (auto simp: fuel engine_fields_def)
  next
    case False
    then have last: "length st = Suc i" using Suc.prems by simp
    let ?irp2 = "?irp1\<lparr>Direction := IrpUp\<rparr>"
    let ?rest = "map (\<lambda>j. DriverCall (word_of_nat j) IrpUp (entry_driver st j)) (rev [0..<Suc i])"
    have a: "IopAdvanceIrpStackLocation ?irp1 = ?irp2"
      using e Suc.prems False lt
      by (simp add: IopAdvanceIrpStackLocation_def engine_fields_def word_succ_less)
    have "i < n" using n last by simp
    from pump_up[OF assms, of ?irp2 i n] Suc.prems e this obtain irp' where
      p: "pump_loop n env ?irp2 = Inr (irp', ?rest)"
      and e': "engine_fields irp' = engine_fields (?irp2\<lparr>StackIndex := 0,
                    Flags := insert IRP_DRIVER_STACK_COMPLETE (Flags ?irp2)\<rparr>)"
      and r: "irp' = (fold (dispatch_slot env mc st) ?rest ?irp2)
                       \<lparr>Flags := insert IRP_DRIVER_STACK_COMPLETE (Flags ?irp2)\<rparr>"
      by (auto simp: engine_fields_def)
    have rne: "?rest \<noteq> []" by simp
    have r': "irp' = (fold (dispatch_slot env mc st) ?rest ?irp1)
                       \<lparr>Flags := insert IRP_DRIVER_STACK_COMPLETE (Flags irp)\<rparr>"
      using r e fold_dispatch_direction[OF rne, of env mc st IrpUp ?irp1]
      by (simp add: engine_fields_def)
    have up1: "[i..<Suc i] = [i]" by simp
    show ?thesis unfolding last up1 using c e a p e' r' w Suc.prems(8,9)
      by (auto simp: fuel engine_fields_def)
  qed
qed

lemma send_loop_done:
  "IRP_DRIVER_STACK_COMPLETE \<in> Flags irp \<Longrightarrow>
   send_loop n env irp St calls = Inr (St, irp\<lparr>Flags := Flags irp - {IRP_ACTIVE}\<rparr>, calls)"
  by (cases n) simp_all

text \<open>
  A send on a transparent stack: with fuel for the \<open>2 * N\<close> dispatches the send returns,
  the dispatches are the traversal, the IRP comes back as these dispatches left it, and
  nothing was ever assigned to \<open>Status\<close>.
\<close>

lemma send_transparent:
  assumes t: "transparent_stack env (Internal_MajorCode irp) st"
    and s: "sendable env irp"
    and st: "Stack irp = Some st" "length st = unat (StackSize irp)" "1 \<le> length st"
    and fuel: "2 * length st \<le> fuel"
  shows "\<exists>irp'. IoSendSynchronousIrp fuel env irp = Inr (None, irp', stack_traversal st)
           \<and> Flags irp' = insert IRP_DRIVER_STACK_COMPLETE (Flags irp) - {IRP_ACTIVE}
           \<and> StackIndex irp' = 0 \<and> Direction irp' = IrpUp
           \<and> irp' = (fold (dispatch_slot env (Internal_MajorCode irp) st) (stack_traversal st)
                       (irp\<lparr>Flags := insert IRP_ACTIVE (Flags irp)\<rparr>))
                      \<lparr>Flags := insert IRP_DRIVER_STACK_COMPLETE (Flags irp) - {IRP_ACTIVE}\<rparr>"
proof -
  let ?irp0 = "irp\<lparr>Flags := insert IRP_ACTIVE (Flags irp)\<rparr>"
  let ?mc = "Internal_MajorCode irp"
  define after where
    "after = fold (dispatch_slot env (Internal_MajorCode irp) st) (stack_traversal st)
               (irp\<lparr>Flags := insert IRP_ACTIVE (Flags irp)\<rparr>)"
  define irp1 where
    "irp1 = after\<lparr>Flags := insert IRP_DRIVER_STACK_COMPLETE (Flags ?irp0)\<rparr>"
  obtain n where n: "fuel = Suc n" using st(3) fuel by (cases fuel) auto
  have fl: "IRP_PENDING \<notin> Flags ?irp0" "IRP_DRIVER_STACK_COMPLETE \<notin> Flags ?irp0"
    using s by (auto simp: sendable_def)
  have "\<exists>irp'. pump_loop fuel env ?irp0
              = Inr (irp', map (\<lambda>j. DriverCall (word_of_nat j) IrpDown (entry_driver st j)) [0..<length st]
                          @ map (\<lambda>j. DriverCall (word_of_nat j) IrpUp (entry_driver st j)) (rev [0..<length st]))
           \<and> engine_fields irp' = engine_fields (?irp0\<lparr>Direction := IrpUp, StackIndex := 0,
                  Flags := insert IRP_DRIVER_STACK_COMPLETE (Flags ?irp0)\<rparr>)
           \<and> irp' = (fold (dispatch_slot env ?mc st)
                       (map (\<lambda>j. DriverCall (word_of_nat j) IrpDown (entry_driver st j)) [0..<length st]
                          @ map (\<lambda>j. DriverCall (word_of_nat j) IrpUp (entry_driver st j)) (rev [0..<length st]))
                       ?irp0)\<lparr>Flags := insert IRP_DRIVER_STACK_COMPLETE (Flags ?irp0)\<rparr>"
    using t s st fuel fl
    by (intro pump_down[where mc = "Internal_MajorCode irp" and k = "length st"])
       (simp_all add: sendable_def)
  then have pe: "pump_loop fuel env ?irp0 = Inr (irp1, stack_traversal st)
                 \<and> engine_fields irp1 = engine_fields (?irp0\<lparr>Direction := IrpUp, StackIndex := 0,
                      Flags := insert IRP_DRIVER_STACK_COMPLETE (Flags ?irp0)\<rparr>)"
    unfolding irp1_def after_def stack_traversal_def by blast
  then have p: "pump_loop fuel env ?irp0 = Inr (irp1, stack_traversal st)"
    and e: "engine_fields irp1 = engine_fields (?irp0\<lparr>Direction := IrpUp, StackIndex := 0,
                  Flags := insert IRP_DRIVER_STACK_COMPLETE (Flags ?irp0)\<rparr>)"
    by blast+
  have c: "CompletionRoutine irp1 = None" and d: "IRP_DRIVER_STACK_COMPLETE \<in> Flags irp1"
    and pn: "IRP_PENDING \<notin> Flags irp1"
    using e s by (auto simp: engine_fields_def sendable_def)
  have pump: "IopPumpIrpThroughStack fuel env ?irp0 = Inr (irp1, stack_traversal st)"
    using p c d by (simp add: IopPumpIrpThroughStack_def)
  let ?r = "irp1\<lparr>Flags := Flags irp1 - {IRP_ACTIVE}\<rparr>"
  have sl: "send_loop fuel env ?irp0 None [] = Inr (None, ?r, stack_traversal st)"
    using pump fl pn d unfolding n by (simp add: send_loop_done)
  have res: "IoSendSynchronousIrp fuel env irp = Inr (None, ?r, stack_traversal st)"
    using s sl by (simp add: IoSendSynchronousIrp_def sendable_def)
  have fs: "Flags irp1 - {IRP_ACTIVE} = insert IRP_DRIVER_STACK_COMPLETE (Flags irp) - {IRP_ACTIVE}"
    using e by (auto simp: engine_fields_def)
  have p1: "Flags ?r = insert IRP_DRIVER_STACK_COMPLETE (Flags irp) - {IRP_ACTIVE}"
    using fs by simp
  have p2: "StackIndex ?r = 0" and p3: "Direction ?r = IrpUp"
    using e by (simp_all add: engine_fields_def)
  have fin: "?r = after\<lparr>Flags := insert IRP_DRIVER_STACK_COMPLETE (Flags irp) - {IRP_ACTIVE}\<rparr>"
    unfolding fs by (simp add: irp1_def)
  have "IoSendSynchronousIrp fuel env irp = Inr (None, ?r, stack_traversal st)
        \<and> Flags ?r = insert IRP_DRIVER_STACK_COMPLETE (Flags irp) - {IRP_ACTIVE}
        \<and> StackIndex ?r = 0 \<and> Direction ?r = IrpUp
        \<and> ?r = after\<lparr>Flags := insert IRP_DRIVER_STACK_COMPLETE (Flags irp) - {IRP_ACTIVE}\<rparr>"
    using res p1 p2 p3 fin by blast
  then show ?thesis unfolding after_def by (rule exI)
qed




lemma example_sendable: "sendable example_env example_irp"
  by (simp add: sendable_def example_env_def example_irp_def)

lemma example_transparent: "transparent_stack example_env IrpMajorOpen example_stack"
  by (simp add: transparent_stack_def example_env_def example_stack_def transparent_table_def
      dispatch_routine_def transparent_dispatch_def)

lemma example_traversal:
  "stack_traversal example_stack
     = [DriverCall 0 IrpDown 1, DriverCall 1 IrpDown 2, DriverCall 2 IrpDown 3,
        DriverCall 2 IrpUp 3, DriverCall 1 IrpUp 2, DriverCall 0 IrpUp 1]"
  by code_simp






section \<open>What the send returns\<close>

text \<open>
  Claim C1 says that \<open>IoSendSynchronousIrp\<close> returns success exactly when the traversal
  ran to completion, also when no driver pended the IRP. On a stack whose drivers neither
  complete nor pend the IRP the traversal does run to completion
  (\<open>IRP_DRIVER_STACK_COMPLETE\<close> is set after the \<open>2 * N\<close> dispatches), but the value
  returned is the local \<open>Status\<close> to which nothing was assigned: the routine assigns it
  only from the wait and on the invalid-parameter path.
\<close>

theorem send_without_pending_returns_unassigned_status:
  assumes "transparent_stack env (Internal_MajorCode irp) st" and "sendable env irp"
    and "Stack irp = Some st" and "length st = unat (StackSize irp)" and "1 \<le> length st"
    and "2 * length st \<le> fuel"
  shows "\<exists>irp'. IoSendSynchronousIrp fuel env irp = Inr (None, irp', stack_traversal st)
           \<and> IRP_DRIVER_STACK_COMPLETE \<in> Flags irp' \<and> IRP_PENDING \<notin> Flags irp'"
proof -
  from send_transparent [OF assms] obtain irp' where
    r: "IoSendSynchronousIrp fuel env irp = Inr (None, irp', stack_traversal st)"
    and f: "Flags irp' = insert IRP_DRIVER_STACK_COMPLETE (Flags irp) - {IRP_ACTIVE}"
    by blast
  have "IRP_PENDING \<notin> Flags irp" using assms(2) by (auto simp: sendable_def)
  then show ?thesis using r f by auto
qed

theorem send_without_pending_returns_unassigned_status_witness:
  "transparent_stack example_env (Internal_MajorCode example_irp) example_stack
   \<and> sendable example_env example_irp
   \<and> Stack example_irp = Some example_stack
   \<and> length example_stack = unat (StackSize example_irp)
   \<and> (\<exists>irp'. IoSendSynchronousIrp 6 example_env example_irp
          = Inr (None, irp',
                 [DriverCall 0 IrpDown 1, DriverCall 1 IrpDown 2, DriverCall 2 IrpDown 3,
                  DriverCall 2 IrpUp 3, DriverCall 1 IrpUp 2, DriverCall 0 IrpUp 1])
        \<and> IRP_DRIVER_STACK_COMPLETE \<in> Flags irp' \<and> IRP_PENDING \<notin> Flags irp')"
proof -
  have m: "Internal_MajorCode example_irp = IrpMajorOpen" by (simp add: example_irp_def)
  have t: "transparent_stack example_env (Internal_MajorCode example_irp) example_stack"
    using example_transparent m by simp
  have s: "Stack example_irp = Some example_stack"
    "length example_stack = unat (StackSize example_irp)" "1 \<le> length example_stack"
    "2 * length example_stack \<le> 6"
    by (simp_all add: example_irp_def example_stack_def)
  show ?thesis
    using send_without_pending_returns_unassigned_status [OF t example_sendable s]
      t example_sendable s example_traversal
    by simp
qed

section \<open>Creating an IRP\<close>

lemma create_device_entries_append:
  "create_device_entries env fl (xs @ ys) cs =
     (case create_device_entries env fl xs cs of
        Inl f \<Rightarrow> Inl f
      | Inr (Some s, c) \<Rightarrow> Inr (Some s, c)
      | Inr (None, c) \<Rightarrow> create_device_entries env fl ys c)"
  by (induction xs arbitrary: cs)
     (auto simp: Let_def split: option.splits prod.splits sum.splits)

lemma create_chain_flat:
  "create_chain_entries env fl d cs = create_device_entries env fl (chain_entries d) cs"
  by (induction d arbitrary: cs rule: chain_entries.induct)
     (auto simp: create_device_entries_append split: option.splits prod.splits sum.splits)

lemma destroyed_entries_append:
  "destroyed_entries (xs @ ys) = destroyed_entries xs @ destroyed_entries ys"
  by (simp add: destroyed_entries_def map_filter_def)

lemma destroyed_entries_simps:
  "destroyed_entries [] = []"
  "destroyed_entries (CallCreateIrp d c i # evs) = destroyed_entries evs"
  "destroyed_entries (CallDestroyIrp d c i k # evs) = i # destroyed_entries evs"
  "destroyed_entries (FreeIrpStack # evs) = destroyed_entries evs"
  "destroyed_entries (ReleaseIrp # evs) = destroyed_entries evs"
  by (simp_all add: destroyed_entries_def map_filter_def)

lemma filled_step:
  assumes "filled n st" "n < length st"
  shows "filled (Suc n) (st[n := (st ! n)\<lparr>DriverStackEntry := Some e\<rparr>])"
    and "filled (Suc n) ((st[n := (st ! n)\<lparr>DriverStackEntry := Some e\<rparr>])
                           [n := ((st[n := (st ! n)\<lparr>DriverStackEntry := Some e\<rparr>]) ! n)\<lparr>IrpContext := c\<rparr>])"
  using assms by (auto simp: filled_def nth_list_update less_Suc_eq)


lemma create_prefix:
  "\<forall>x\<in>set pre. hook_succeeds env fl x \<Longrightarrow> Stack (Irp cs) = Some st \<Longrightarrow>
   filled (unat (EntryIndex cs)) st \<Longrightarrow> unat (EntryIndex cs) + length pre \<le> length st \<Longrightarrow>
   length st < 2 ^ 32 \<Longrightarrow>
   \<exists>cs' st'. create_device_entries env fl pre cs = Inr (None, cs')
       \<and> Stack (Irp cs') = Some st' \<and> length st' = length st
       \<and> filled (unat (EntryIndex cs')) st'
       \<and> unat (EntryIndex cs') = unat (EntryIndex cs) + length pre
       \<and> StackSize (Irp cs') = StackSize (Irp cs)
       \<and> destroyed_entries (Calls cs') = destroyed_entries (Calls cs)"
proof (induction pre arbitrary: cs st)
  case Nil
  then show ?case by simp
next
  case (Cons e pre)
  let ?i = "unat (EntryIndex cs)"
  have i: "?i < length st" using Cons.prems by simp
  have u: "unat (EntryIndex cs + 1) = Suc ?i"
  proof -
    have "?i + unat (1::32 word) < 2 ^ LENGTH(32)" using i Cons.prems(5) by simp
    then have "unat (EntryIndex cs + 1) = ?i + unat (1::32 word)"
      by (rule unat_add_lem [THEN iffD1])
    then show ?thesis by simp
  qed
  let ?st1 = "st[?i := (st ! ?i)\<lparr>DriverStackEntry := Some e\<rparr>]"
  show ?case
  proof (cases "CreateIrp (FunctionTable env (Driver e))")
    case None
    let ?cs1 = "cs\<lparr>Irp := (Irp cs)\<lparr>Stack := Some ?st1\<rparr>, CurrentStackEntry := Some e,
                     EntryIndex := EntryIndex cs + 1\<rparr>"
    have step: "create_device_entries env fl (e # pre) cs = create_device_entries env fl pre ?cs1"
      using None Cons.prems(2) i by (simp add: Let_def)
    have "\<exists>cs' st'. create_device_entries env fl pre ?cs1 = Inr (None, cs')
       \<and> Stack (Irp cs') = Some st' \<and> length st' = length ?st1
       \<and> filled (unat (EntryIndex cs')) st'
       \<and> unat (EntryIndex cs') = unat (EntryIndex ?cs1) + length pre
       \<and> StackSize (Irp cs') = StackSize (Irp ?cs1)
       \<and> destroyed_entries (Calls cs') = destroyed_entries (Calls ?cs1)"
      using Cons.prems i u filled_step(1)[OF Cons.prems(3) i, of e]
      by (intro Cons.IH) simp_all
    then show ?thesis using step u by auto
  next
    case (Some hook)
    obtain hs ctx where h: "hook ((Irp cs)\<lparr>Stack := Some ?st1\<rparr>) (DriverContext e) fl = (hs, ctx)"
      by (cases "hook ((Irp cs)\<lparr>Stack := Some ?st1\<rparr>) (DriverContext e) fl") auto
    have ok: "KSUCCESS hs"
      using Cons.prems(1) Some h by (auto simp: hook_succeeds_def dest: spec[where x="(Irp cs)\<lparr>Stack := Some ?st1\<rparr>"])
    let ?st2 = "?st1[?i := (?st1 ! ?i)\<lparr>IrpContext := ctx\<rparr>]"
    let ?cs2 = "cs\<lparr>Irp := (Irp cs)\<lparr>Stack := Some ?st2\<rparr>, CurrentStackEntry := Some e,
                     Calls := Calls cs @ [CallCreateIrp (Driver e) (DriverContext e) ?i],
                     EntryIndex := EntryIndex cs + 1\<rparr>"
    have step: "create_device_entries env fl (e # pre) cs = create_device_entries env fl pre ?cs2"
      using Some h ok Cons.prems(2) i by (simp add: Let_def)
    have "\<exists>cs' st'. create_device_entries env fl pre ?cs2 = Inr (None, cs')
       \<and> Stack (Irp cs') = Some st' \<and> length st' = length ?st2
       \<and> filled (unat (EntryIndex cs')) st'
       \<and> unat (EntryIndex cs') = unat (EntryIndex ?cs2) + length pre
       \<and> StackSize (Irp cs') = StackSize (Irp ?cs2)
       \<and> destroyed_entries (Calls cs') = destroyed_entries (Calls ?cs2)"
      using Cons.prems i u filled_step(2)[OF Cons.prems(3) i, of e ctx]
      by (intro Cons.IH) simp_all
    then show ?thesis using step u
      by (auto simp: destroyed_entries_append destroyed_entries_simps)
  qed
qed

lemma create_failing_entry:
  assumes "hook_fails env fl e" "Stack (Irp cs) = Some st"
    "filled (unat (EntryIndex cs)) st" "unat (EntryIndex cs) < length st"
  shows "\<exists>s cs' st'. create_device_entries env fl (e # post) cs = Inr (Some s, cs')
       \<and> Stack (Irp cs') = Some st' \<and> length st' = length st
       \<and> filled (Suc (unat (EntryIndex cs))) st'
       \<and> CurrentStackEntry cs' = Some e
       \<and> StackSize (Irp cs') = StackSize (Irp cs)
       \<and> destroyed_entries (Calls cs') = destroyed_entries (Calls cs)"
proof -
  let ?i = "unat (EntryIndex cs)"
  let ?st1 = "st[?i := (st ! ?i)\<lparr>DriverStackEntry := Some e\<rparr>]"
  from assms(1) obtain hook where hk: "CreateIrp (FunctionTable env (Driver e)) = Some hook"
    and f: "\<forall>irp. \<not> KSUCCESS (fst (hook irp (DriverContext e) fl))"
    by (auto simp: hook_fails_def split: option.splits)
  obtain hs ctx where h: "hook ((Irp cs)\<lparr>Stack := Some ?st1\<rparr>) (DriverContext e) fl = (hs, ctx)"
    by (cases "hook ((Irp cs)\<lparr>Stack := Some ?st1\<rparr>) (DriverContext e) fl") auto
  have bad: "\<not> KSUCCESS hs"
    using f h by (auto dest: spec[where x="(Irp cs)\<lparr>Stack := Some ?st1\<rparr>"])
  show ?thesis
    using hk h bad assms(2,4) filled_step(2)[OF assms(3,4), of e ctx]
    by (simp add: Let_def destroyed_entries_append destroyed_entries_simps)
qed

lemma cleanup_filled:
  "filled m st \<Longrightarrow> m \<le> length st \<Longrightarrow> n \<le> length st \<Longrightarrow> m \<le> n \<Longrightarrow> a \<le> m \<Longrightarrow>
   k = m - a \<Longrightarrow>
   \<exists>evs. destroy_created_entries env st (Some c) [a..<n] = Inr evs
      \<and> destroyed_entries evs = (if DestroyIrp (FunctionTable env (Driver c)) then [a..<m] else [])"
proof (induction k arbitrary: a)
  case 0
  then have am: "a = m" by simp
  show ?case
  proof (cases "m < n")
    case True
    then have "[a..<n] = m # [Suc m..<n]" using am by (simp add: upt_conv_Cons)
    moreover have "DriverStackEntry (st ! m) = None"
      using 0(1,3) True by (simp add: filled_def)
    ultimately show ?thesis using True 0(3) am by (simp add: destroyed_entries_simps)
  next
    case False
    then show ?thesis using am 0 by (simp add: destroyed_entries_simps)
  qed
next
  case (Suc k)
  then have lt: "a < m" by simp
  then have l: "[a..<n] = a # [Suc a..<n]" using Suc.prems by (simp add: upt_conv_Cons)
  have l2: "[a..<m] = a # [Suc a..<m]" using lt by (simp add: upt_conv_Cons)
  have ne: "DriverStackEntry (st ! a) \<noteq> None" using Suc.prems(1) lt by (simp add: filled_def)
  have al: "a < length st" using lt Suc.prems by simp
  have k: "k = m - Suc a" using Suc.prems by arith
  from Suc.IH[of "Suc a"] Suc.prems lt k obtain evs where
    r: "destroy_created_entries env st (Some c) [Suc a..<n] = Inr evs"
    and d: "destroyed_entries evs = (if DestroyIrp (FunctionTable env (Driver c)) then [Suc a..<m] else [])"
    by auto
  show ?case
    using l l2 ne al r d by (auto simp: destroyed_entries_simps)
qed

lemma chain_entries_nonempty:
  "DriverStackHead d \<noteq> [] \<Longrightarrow> chain_entries d \<noteq> []"
  by (cases d) (auto split: option.splits)


lemma destroyed_entries_none:
  "destroyed_entries evs = [] \<Longrightarrow> \<forall>ev\<in>set evs. destroy_call_entry ev = None"
  by (simp add: destroyed_entries_def map_filter_def filter_empty_conv)

lemma destroy_created_entries_hook:
  "destroy_created_entries env st (Some c) is = Inr evs \<Longrightarrow>
   \<forall>ev\<in>set evs. HookDriver ev = Driver c \<and> HookDriverContext ev = DriverContext c"
proof (induction "is" arbitrary: evs)
  case Nil
  then show ?case by simp
next
  case (Cons i rest)
  show ?case
  proof (cases "i < length st \<and> DriverStackEntry (st ! i) \<noteq> None")
    case False
    then show ?thesis using Cons.prems by (auto split: if_splits)
  next
    case True
    then obtain evs' where r: "destroy_created_entries env st (Some c) rest = Inr evs'"
      and e: "evs = (if DestroyIrp (FunctionTable env (Driver c))
                     then [CallDestroyIrp (Driver c) (DriverContext c) i (IrpContext (st ! i))]
                     else []) @ evs'"
      using Cons.prems by (cases "destroy_created_entries env st (Some c) rest") auto
    from Cons.IH[OF r] show ?thesis unfolding e by auto
  qed
qed

text \<open>
  A failed creation in one piece: the calls of the fill loop, none of them a
  \<open>DestroyIrp\<close>, then those of the clean-up loop, run with the failing entry as
  \<open>CurrentStackEntry\<close>, then the release of the stack and of the IRP.
\<close>

lemma create_hook_failure_run:
  assumes cfg: "DriverStackSize d \<noteq> 0" "DriverStackHead d \<noteq> []"
    and obj: "ObCreateObject env = Some obj" and pool: "MmAllocateNonPagedPool_succeeds env"
    and ch: "chain_entries d = pre @ e # post"
    and ok: "\<forall>x\<in>set pre. hook_succeeds env fl x" and bad: "hook_fails env fl e"
    and sz: "unat (chain_stack_size d 0) * 8 < 2 ^ 32"
    and k: "length pre < unat (chain_stack_size d 0)"
  shows "\<exists>calls evs st is.
           IoCreateIrp env (Some d) Major fl = Inr (None, calls @ evs @ [FreeIrpStack, ReleaseIrp])
           \<and> destroyed_entries calls = []
           \<and> destroy_created_entries env st (Some e) is = Inr evs
           \<and> destroyed_entries evs
               = (if DestroyIrp (FunctionTable env (Driver e)) then [0..<Suc (length pre)] else [])"
proof -
  let ?size = "chain_stack_size d 0"
  let ?st0 = "replicate (unat (SIZEOF_IRP_STACK_ENTRY * ?size) div unat SIZEOF_IRP_STACK_ENTRY)
                \<lparr>DriverStackEntry = None, IrpContext = 0\<rparr>"
  have len: "length ?st0 = unat ?size"
  proof -
    have "unat (SIZEOF_IRP_STACK_ENTRY * ?size) = 8 * unat ?size"
      using sz by (simp add: SIZEOF_IRP_STACK_ENTRY_def unat_word_ariths)
    then show ?thesis by (simp add: SIZEOF_IRP_STACK_ENTRY_def)
  qed
  let ?irp = "IopInitializeIrp
                (obj\<lparr>Magic := IRP_MAGIC_VALUE env, Internal_Device := Address d,
                     Internal_MajorCode := Major, Device := Address d, MajorCode := Major,
                     Flags := {}, Stack := Some ?st0, StackIndex := 0, StackSize := ?size\<rparr>)"
  let ?cs = "\<lparr>Irp = ?irp, EntryIndex = 0, CurrentStackEntry = None, Calls = []\<rparr>"
  have s0: "Stack (Irp ?cs) = Some ?st0" by (simp add: IopInitializeIrp_def)
  have f0: "filled (unat (EntryIndex ?cs)) ?st0" by (simp add: filled_def)
  have l32: "length ?st0 < 2 ^ 32" using len sz by simp
  have "\<exists>cs' st'. create_device_entries env fl pre ?cs = Inr (None, cs')
       \<and> Stack (Irp cs') = Some st' \<and> length st' = length ?st0
       \<and> filled (unat (EntryIndex cs')) st'
       \<and> unat (EntryIndex cs') = unat (EntryIndex ?cs) + length pre
       \<and> StackSize (Irp cs') = StackSize (Irp ?cs)
       \<and> destroyed_entries (Calls cs') = destroyed_entries (Calls ?cs)"
    using ok s0 f0 l32 k len by (intro create_prefix) simp_all
  then obtain cs1 st1 where
    p: "create_device_entries env fl pre ?cs = Inr (None, cs1)"
    and p1: "Stack (Irp cs1) = Some st1" "length st1 = unat ?size"
      "filled (unat (EntryIndex cs1)) st1" "unat (EntryIndex cs1) = length pre"
      "StackSize (Irp cs1) = ?size" "destroyed_entries (Calls cs1) = []"
    using len by (auto simp: IopInitializeIrp_def destroyed_entries_simps)
  from create_failing_entry[OF bad p1(1) p1(3), of post] p1 k obtain s cs2 st2 where
    q: "create_device_entries env fl (e # post) cs1 = Inr (Some s, cs2)"
    and q1: "Stack (Irp cs2) = Some st2" "length st2 = unat ?size"
      "filled (Suc (length pre)) st2" "CurrentStackEntry cs2 = Some e"
      "StackSize (Irp cs2) = ?size" "destroyed_entries (Calls cs2) = []"
    by auto
  have fill: "create_chain_entries env fl d ?cs = Inr (Some s, cs2)"
    using p q by (simp add: create_chain_flat ch create_device_entries_append)
  from cleanup_filled[OF q1(3), of "unat ?size" 0 "Suc (length pre)" env e] q1 k
  obtain evs where
    c: "destroy_created_entries env st2 (Some e) [0..<unat ?size] = Inr evs"
    and c1: "destroyed_entries evs
              = (if DestroyIrp (FunctionTable env (Driver e)) then [0..<Suc (length pre)] else [])"
    by auto
  have r: "IoCreateIrp env (Some d) Major fl
             = Inr (None, Calls cs2 @ evs @ [FreeIrpStack, ReleaseIrp])"
    using cfg obj pool fill q1 c
    by (simp add: IoCreateIrp_def Let_def)
  from r q1(6) c c1 show ?thesis by blast
qed

text \<open>
  Claim C2 says that \<open>IoCreateIrp\<close> returns the out-of-memory failure, after releasing
  the IRP, when the allocation of the stack fails, and never dereferences the unallocated
  stack. The code sets \<open>Status\<close> and continues: for every device that passes the
  configuration check, a failed stack allocation ends in an access through the null stack
  pointer (in \<open>RtlZeroMemory\<close>, or at the first slot the fill loop writes) and nothing
  is returned.
\<close>

theorem stack_allocation_failure_dereferences_null:
  assumes "DriverStackSize d \<noteq> 0" and "DriverStackHead d \<noteq> []"
    and "ObCreateObject env = Some obj" and "\<not> MmAllocateNonPagedPool_succeeds env"
  shows "IoCreateIrp env (Some d) Major fl = Inl MemoryFault"
proof -
  obtain e es where es: "chain_entries d = e # es"
    using chain_entries_nonempty[OF assms(2)] by (cases "chain_entries d") auto
  show ?thesis
    using assms es
    by (simp add: IoCreateIrp_def Let_def create_chain_flat IopInitializeIrp_def)
qed


theorem stack_allocation_failure_dereferences_null_witness:
  "DriverStackSize example_device \<noteq> 0 \<and> DriverStackHead example_device \<noteq> []
   \<and> ObCreateObject exhausted_env = Some example_irp
   \<and> \<not> MmAllocateNonPagedPool_succeeds exhausted_env
   \<and> IoCreateIrp exhausted_env (Some example_device) IrpMajorOpen 0 = Inl MemoryFault"
proof -
  have h: "DriverStackSize example_device \<noteq> 0" "DriverStackHead example_device \<noteq> []"
    "ObCreateObject exhausted_env = Some example_irp"
    "\<not> MmAllocateNonPagedPool_succeeds exhausted_env"
    by (simp_all add: example_device_def exhausted_env_def example_env_def)
  show ?thesis
    using h stack_allocation_failure_dereferences_null [OF h, of IrpMajorOpen 0] by simp
qed




text \<open>
  Whose hook the clean-up calls: the hook and the driver context of every call are those
  of the failing entry, for every slot, where \<open>IoDestroyIrp\<close> takes them from the
  slot's own entry.
\<close>

lemma create_cleanup_hook_of_failing_entry:
  assumes cfg: "DriverStackSize d \<noteq> 0" "DriverStackHead d \<noteq> []"
    and obj: "ObCreateObject env = Some obj" and pool: "MmAllocateNonPagedPool_succeeds env"
    and ch: "chain_entries d = pre @ e # post"
    and ok: "\<forall>x\<in>set pre. hook_succeeds env fl x" and bad: "hook_fails env fl e"
    and sz: "unat (chain_stack_size d 0) * 8 < 2 ^ 32"
    and k: "length pre < unat (chain_stack_size d 0)"
  shows "\<exists>evs. IoCreateIrp env (Some d) Major fl = Inr (None, evs)
          \<and> (\<forall>ev\<in>set evs. destroy_call_entry ev \<noteq> None \<longrightarrow>
                 HookDriver ev = Driver e \<and> HookDriverContext ev = DriverContext e)"
proof -
  from create_hook_failure_run [OF assms, of Major] obtain calls evs st "is" where
    r: "IoCreateIrp env (Some d) Major fl = Inr (None, calls @ evs @ [FreeIrpStack, ReleaseIrp])"
    and n: "destroyed_entries calls = []"
    and c: "destroy_created_entries env st (Some e) is = Inr evs"
    by blast
  have "\<forall>ev\<in>set (calls @ evs @ [FreeIrpStack, ReleaseIrp]). destroy_call_entry ev \<noteq> None \<longrightarrow>
          HookDriver ev = Driver e \<and> HookDriverContext ev = DriverContext e"
    using destroyed_entries_none [OF n] destroy_created_entries_hook [OF c] by auto
  with r show ?thesis by blast
qed

section \<open>The synchronous helpers and the device lock\<close>

text \<open>\<open>IoCreateIrp\<close> does not look at the state of the device.\<close>

lemma create_in_state:
  "IoCreateIrp env (Some (in_state s Dev)) Major fl = IoCreateIrp env (Some Dev) Major fl"
  by (cases Dev; cases "ObCreateObject env") (simp_all add: IoCreateIrp_def Let_def)

text \<open>
  Claim C4, as stated, fails for the close helper (and the read/write helper, which it
  shares its shape with): on a removed device \<open>IopSendCloseIrp\<close> takes no lock, sends the
  IRP to the driver and returns the IRP's status.
\<close>

theorem close_helper_on_removed_device_counterexample:
  "State removed_disk_device = DeviceRemoved
   \<and> IopSendCloseIrp 4 deferring_env removed_disk_device 0
       = Inr (STATUS_SUCCESS,
              [Created [], Sent [DriverCall 0 IrpDown 1, DriverCall 0 IrpUp 1],
               Destroyed [FreeIrpStack, ReleaseIrp]])
   \<and> sends_an_irp [Created [], Sent [DriverCall 0 IrpDown 1, DriverCall 0 IrpUp 1],
                     Destroyed [FreeIrpStack, ReleaseIrp]]
   \<and> takes_no_lock [Created [], Sent [DriverCall 0 IrpDown 1, DriverCall 0 IrpUp 1],
                      Destroyed [FreeIrpStack, ReleaseIrp]]"
  by code_simp

text \<open>
  Claim C4, amended. The open, system-control and user-control helpers take the target
  device's shared lock first, create and send the IRP while they hold it, and release it
  before they destroy the IRP; on a device in the removed state they return
  \<open>STATUS_DEVICE_NOT_CONNECTED\<close> having only taken and released the lock, with no IRP
  created or sent. For system control this holds for a control number above
  \<open>IrpMinorSystemControlInvalid\<close>; a control number at or below it is refused with
  \<open>STATUS_INVALID_PARAMETER\<close> before the lock is taken. The close and read/write
  helpers take no lock and do not look at the state of the device: on the device in any
  other state they do the same.
\<close>

theorem helpers_lock_and_removed_state:
  "(\<forall>St r' evs. IopSendOpenIrp fuel env Dev r = Inr (St, r', evs)
        \<longrightarrow> holds_lock_during_submission (Address Dev) evs)
   \<and> (\<forall>St evs. IrpMinorSystemControlInvalid env < cn
        \<and> IopSendSystemControlIrp fuel env Dev cn ctx = Inr (St, evs)
        \<longrightarrow> holds_lock_during_submission (Address Dev) evs)
   \<and> (\<forall>St evs. IopSendUserControlIrp fuel env Dev mn km ub us = Inr (St, evs)
        \<longrightarrow> holds_lock_during_submission (Address Dev) evs)
   \<and> (State Dev = DeviceRemoved \<longrightarrow>
        IopSendOpenIrp fuel env Dev r
          = Inr (STATUS_DEVICE_NOT_CONNECTED, r,
                 [AcquireSharedLock (Address Dev), ReleaseSharedLock (Address Dev)])
        \<and> (IrpMinorSystemControlInvalid env < cn \<longrightarrow>
             IopSendSystemControlIrp fuel env Dev cn ctx
               = Inr (STATUS_DEVICE_NOT_CONNECTED,
                      [AcquireSharedLock (Address Dev), ReleaseSharedLock (Address Dev)]))
        \<and> IopSendUserControlIrp fuel env Dev mn km ub us
              = Inr (STATUS_DEVICE_NOT_CONNECTED,
                     [AcquireSharedLock (Address Dev), ReleaseSharedLock (Address Dev)]))
   \<and> (cn \<le> IrpMinorSystemControlInvalid env \<longrightarrow>
        IopSendSystemControlIrp fuel env Dev cn ctx = Inr (STATUS_INVALID_PARAMETER, []))
   \<and> (\<forall>St evs. IopSendCloseIrp fuel env Dev c = Inr (St, evs) \<longrightarrow> takes_no_lock evs)
   \<and> (\<forall>St q' evs. IopSendIoIrp fuel env Dev m q = Inr (St, q', evs) \<longrightarrow> takes_no_lock evs)
   \<and> IopSendCloseIrp fuel env (in_state s Dev) c = IopSendCloseIrp fuel env Dev c
   \<and> IopSendIoIrp fuel env (in_state s Dev) m q = IopSendIoIrp fuel env Dev m q"
proof (intro conjI allI impI)
  fix St r' evs
  assume "IopSendOpenIrp fuel env Dev r = Inr (St, r', evs)"
  then show "holds_lock_during_submission (Address Dev) evs"
    by (auto simp: IopSendOpenIrp_def split: if_splits sum.splits option.splits prod.splits)
next
  fix St evs
  assume "IrpMinorSystemControlInvalid env < cn
          \<and> IopSendSystemControlIrp fuel env Dev cn ctx = Inr (St, evs)"
  then show "holds_lock_during_submission (Address Dev) evs"
    by (auto simp: IopSendSystemControlIrp_def
             split: if_splits sum.splits option.splits prod.splits)
next
  fix St evs
  assume "IopSendUserControlIrp fuel env Dev mn km ub us = Inr (St, evs)"
  then show "holds_lock_during_submission (Address Dev) evs"
    by (auto simp: IopSendUserControlIrp_def
             split: if_splits sum.splits option.splits prod.splits)
next
  fix St evs
  assume "IopSendCloseIrp fuel env Dev c = Inr (St, evs)"
  then show "takes_no_lock evs"
    by (auto simp: IopSendCloseIrp_def split: if_splits sum.splits option.splits prod.splits)
next
  fix St q' evs
  assume "IopSendIoIrp fuel env Dev m q = Inr (St, q', evs)"
  then show "takes_no_lock evs"
    by (auto simp: IopSendIoIrp_def split: if_splits sum.splits option.splits prod.splits)
next
  show "IopSendCloseIrp fuel env (in_state s Dev) c = IopSendCloseIrp fuel env Dev c"
    by (simp add: IopSendCloseIrp_def create_in_state)
next
  show "IopSendIoIrp fuel env (in_state s Dev) m q = IopSendIoIrp fuel env Dev m q"
    by (simp add: IopSendIoIrp_def create_in_state)
qed (simp_all add: IopSendOpenIrp_def IopSendSystemControlIrp_def IopSendUserControlIrp_def)

lemma open_on_started_disk:
  "IopSendOpenIrp 4 deferring_env disk_device 5
     = Inr (STATUS_SUCCESS, 5,
            [AcquireSharedLock 200, Created [],
             Sent [DriverCall 0 IrpDown 1, DriverCall 0 IrpUp 1],
             ReleaseSharedLock 200, Destroyed [FreeIrpStack, ReleaseIrp]])"
  by code_simp

lemma system_control_on_started_disk:
  "IopSendSystemControlIrp 4 deferring_env disk_device 0x5001 9
     = Inr (STATUS_SUCCESS,
            [AcquireSharedLock 200, Created [],
             Sent [DriverCall 0 IrpDown 1, DriverCall 0 IrpUp 1],
             ReleaseSharedLock 200, Destroyed [FreeIrpStack, ReleaseIrp]])"
  by code_simp

lemma user_control_on_started_disk:
  "IopSendUserControlIrp 4 deferring_env disk_device 3 True 0 0
     = Inr (STATUS_SUCCESS,
            [AcquireSharedLock 200, Created [],
             Sent [DriverCall 0 IrpDown 1, DriverCall 0 IrpUp 1],
             ReleaseSharedLock 200, Destroyed [FreeIrpStack, ReleaseIrp]])"
  by code_simp

lemma close_on_started_disk:
  "IopSendCloseIrp 4 deferring_env disk_device 0
     = Inr (STATUS_SUCCESS,
            [Created [], Sent [DriverCall 0 IrpDown 1, DriverCall 0 IrpUp 1],
             Destroyed [FreeIrpStack, ReleaseIrp]])"
  by code_simp

lemma write_on_started_disk:
  "IopSendIoIrp 4 deferring_env disk_device 0x4002 example_read
     = Inr (STATUS_SUCCESS, example_read\<lparr>IoBytesCompleted := 4096, NewIoOffset := 12288\<rparr>,
            [Created [], Sent [DriverCall 0 IrpDown 1, DriverCall 0 IrpUp 1],
             Destroyed [FreeIrpStack, ReleaseIrp]])"
  by code_simp

lemma removed_disk_is_disk_removed: "in_state DeviceRemoved disk_device = removed_disk_device"
  by (simp add: disk_device_def removed_disk_device_def)

theorem helpers_lock_and_removed_state_witness:
  "(\<exists>St r' evs. IopSendOpenIrp 4 deferring_env disk_device 5 = Inr (St, r', evs)
        \<and> sends_an_irp evs \<and> holds_lock_during_submission (Address disk_device) evs)
   \<and> (\<exists>St evs. IrpMinorSystemControlInvalid deferring_env < 0x5001
        \<and> IopSendSystemControlIrp 4 deferring_env disk_device 0x5001 9 = Inr (St, evs)
        \<and> sends_an_irp evs \<and> holds_lock_during_submission (Address disk_device) evs)
   \<and> (\<exists>St evs. IopSendUserControlIrp 4 deferring_env disk_device 3 True 0 0 = Inr (St, evs)
        \<and> sends_an_irp evs \<and> holds_lock_during_submission (Address disk_device) evs)
   \<and> State removed_disk_device = DeviceRemoved
   \<and> IopSendOpenIrp 4 deferring_env removed_disk_device 5
       = Inr (STATUS_DEVICE_NOT_CONNECTED, 5, [AcquireSharedLock 200, ReleaseSharedLock 200])
   \<and> IopSendSystemControlIrp 4 deferring_env removed_disk_device 0x5001 9
       = Inr (STATUS_DEVICE_NOT_CONNECTED, [AcquireSharedLock 200, ReleaseSharedLock 200])
   \<and> IopSendUserControlIrp 4 deferring_env removed_disk_device 3 True 0 0
       = Inr (STATUS_DEVICE_NOT_CONNECTED, [AcquireSharedLock 200, ReleaseSharedLock 200])
   \<and> 0x5000 \<le> IrpMinorSystemControlInvalid deferring_env
   \<and> IopSendSystemControlIrp 4 deferring_env disk_device 0x5000 9
       = Inr (STATUS_INVALID_PARAMETER, [])
   \<and> (\<exists>St evs. IopSendCloseIrp 4 deferring_env removed_disk_device 0 = Inr (St, evs)
        \<and> sends_an_irp evs \<and> takes_no_lock evs)
   \<and> (\<exists>St q' evs. IopSendIoIrp 4 deferring_env removed_disk_device 0x4002 example_read
                      = Inr (St, q', evs)
        \<and> sends_an_irp evs \<and> takes_no_lock evs)
   \<and> IopSendCloseIrp 4 deferring_env removed_disk_device 0
       = IopSendCloseIrp 4 deferring_env disk_device 0
   \<and> IopSendIoIrp 4 deferring_env removed_disk_device 0x4002 example_read
       = IopSendIoIrp 4 deferring_env disk_device 0x4002 example_read"
proof -
  have a: "Address disk_device = 200" "Address removed_disk_device = 200"
    "State removed_disk_device = DeviceRemoved"
    "IrpMinorSystemControlInvalid deferring_env < 0x5001"
    "0x5000 \<le> IrpMinorSystemControlInvalid deferring_env"
    by (simp_all add: disk_device_def removed_disk_device_def deferring_env_def example_env_def)
  note started = helpers_lock_and_removed_state
            [of 4 deferring_env disk_device 5 "0x5001" 9 3 True 0 0 0 "0x4002" example_read
                DeviceRemoved]
  note removed = helpers_lock_and_removed_state
            [of 4 deferring_env removed_disk_device 5 "0x5001" 9 3 True 0 0 0 "0x4002" example_read
                DeviceRemoved]
  note refused = helpers_lock_and_removed_state
            [of 4 deferring_env disk_device 5 "0x5000" 9 3 True 0 0 0 "0x4002" example_read
                DeviceRemoved]
  have same: "IopSendCloseIrp 4 deferring_env removed_disk_device 0
                = IopSendCloseIrp 4 deferring_env disk_device 0"
    "IopSendIoIrp 4 deferring_env removed_disk_device 0x4002 example_read
                = IopSendIoIrp 4 deferring_env disk_device 0x4002 example_read"
    using started unfolding removed_disk_is_disk_removed by blast+
  have l1: "\<exists>St r' evs. IopSendOpenIrp 4 deferring_env disk_device 5 = Inr (St, r', evs)
        \<and> sends_an_irp evs \<and> holds_lock_during_submission (Address disk_device) evs"
    using started open_on_started_disk by simp
  have l2: "\<exists>St evs. IrpMinorSystemControlInvalid deferring_env < 0x5001
        \<and> IopSendSystemControlIrp 4 deferring_env disk_device 0x5001 9 = Inr (St, evs)
        \<and> sends_an_irp evs \<and> holds_lock_during_submission (Address disk_device) evs"
    using started system_control_on_started_disk a(4) by simp
  have l3: "\<exists>St evs. IopSendUserControlIrp 4 deferring_env disk_device 3 True 0 0 = Inr (St, evs)
        \<and> sends_an_irp evs \<and> holds_lock_during_submission (Address disk_device) evs"
    using started user_control_on_started_disk by simp
  have n1: "\<exists>St evs. IopSendCloseIrp 4 deferring_env removed_disk_device 0 = Inr (St, evs)
        \<and> sends_an_irp evs \<and> takes_no_lock evs"
    using removed close_on_started_disk same(1) by simp
  have n2: "\<exists>St q' evs. IopSendIoIrp 4 deferring_env removed_disk_device 0x4002 example_read
                      = Inr (St, q', evs)
        \<and> sends_an_irp evs \<and> takes_no_lock evs"
    using removed write_on_started_disk same(2) by simp
  have r: "IopSendOpenIrp 4 deferring_env removed_disk_device 5
       = Inr (STATUS_DEVICE_NOT_CONNECTED, 5, [AcquireSharedLock 200, ReleaseSharedLock 200])"
    "IopSendSystemControlIrp 4 deferring_env removed_disk_device 0x5001 9
       = Inr (STATUS_DEVICE_NOT_CONNECTED, [AcquireSharedLock 200, ReleaseSharedLock 200])"
    "IopSendUserControlIrp 4 deferring_env removed_disk_device 3 True 0 0
       = Inr (STATUS_DEVICE_NOT_CONNECTED, [AcquireSharedLock 200, ReleaseSharedLock 200])"
    using removed a by simp_all
  have i: "IopSendSystemControlIrp 4 deferring_env disk_device 0x5000 9
       = Inr (STATUS_INVALID_PARAMETER, [])"
    using refused a(5) by blast
  from l1 l2 l3 a(3) r a(5) i n1 n2 same show ?thesis by blast
qed

section \<open>The read helper and the file size\<close>

lemma unat_ucast_uintn: "unat (ucast (b::uintn) :: ulonglong) = unat b"
proof -
  have "unat b < 2 ^ 32" using unsigned_less[of b, where 'a=nat] by simp
  then have "unat b < 2 ^ 64" by simp
  then show ?thesis by (simp add: unsigned_ucast_eq take_bit_nat_eq_self)
qed

lemma clamp_fits:
  fixes off limit :: ulonglong and bc :: uintn
  assumes gt: "off + ucast bc > limit" and le: "off \<le> limit"
  shows "unat limit - unat off < 2 ^ 32"
proof -
  have b: "unat bc < 2 ^ 32" using unsigned_less[of bc] by simp
  have o: "unat off \<le> unat limit" using le by (simp add: word_le_nat_alt)
  have s: "unat limit < (unat off + unat bc) mod 2 ^ 64"
    using gt by (simp add: word_less_nat_alt unat_word_ariths unat_ucast_uintn)
  show ?thesis
  proof (cases "unat off + unat bc < 2 ^ 64")
    case True
    then show ?thesis using s b o by simp
  next
    case False
    then have "(unat off + unat bc) mod 2 ^ 64 = unat off + unat bc - 2 ^ 64"
      using unsigned_less[of off, where 'a=nat] b
      by (simp add: mod_if)
    moreover have "unat off < 2 ^ 64" using unsigned_less[of off, where 'a=nat] by simp
    ultimately show ?thesis using s b o by simp
  qed
qed


lemma clamp_to_file_size_result:
  assumes "IoOffset Request + ucast (IoBytesCompleted Request) > Limit"
  shows "uint (IoBytesCompleted (clamp_to_file_size Limit Request))
           = max 0 (uint Limit - uint (IoOffset Request))
         \<and> NewIoOffset (clamp_to_file_size Limit Request)
           = IoOffset Request + ucast (IoBytesCompleted (clamp_to_file_size Limit Request))
         \<and> IoOffset (clamp_to_file_size Limit Request) = IoOffset Request"
proof (cases "IoOffset Request > Limit")
  case True
  then have "uint Limit < uint (IoOffset Request)" by (simp add: word_less_def)
  then show ?thesis using assms True by (simp add: clamp_to_file_size_def)
next
  case False
  then have le: "IoOffset Request \<le> Limit" by simp
  have fit: "unat Limit - unat (IoOffset Request) < 2 ^ 32"
    using clamp_fits[OF assms le] .
  have sub: "unat (Limit - IoOffset Request) = unat Limit - unat (IoOffset Request)"
    using le by (rule unat_sub)
  have u: "unat (ucast (Limit - IoOffset Request) :: uintn) = unat Limit - unat (IoOffset Request)"
    using fit sub by (simp add: unsigned_ucast_eq take_bit_nat_eq_self)
  have o: "unat (IoOffset Request) \<le> unat Limit" using le by (simp add: word_le_nat_alt)
  have "uint (ucast (Limit - IoOffset Request) :: uintn)
                     = uint Limit - uint (IoOffset Request)"
    by (metis u o of_nat_diff of_nat_unat)
  moreover have "uint (IoOffset Request) \<le> uint Limit" using le by (simp add: word_le_def)
  ultimately show ?thesis using assms False by (simp add: clamp_to_file_size_def Let_def)
qed


text \<open>
  The sum the routine compares is the sum of the two numbers whenever that is below
  \<open>2 ^ 64\<close>.
\<close>

lemma read_sum_without_wrap:
  fixes off limit :: ulonglong and bc :: uintn
  assumes "unat off + unat bc < 2 ^ 64"
  shows "(limit < off + ucast bc) = (unat limit < unat off + unat bc)"
  using assms by (simp add: word_less_nat_alt unat_word_ariths unat_ucast_uintn)

text \<open>
  Claim C9. After the send of \<open>IopSendIoReadIrp\<close>, with the request as the send left it:
  if its offset plus its bytes completed (the \<open>ULONGLONG\<close> sum the routine compares)
  lies beyond the file size of the target's file properties, then the bytes completed
  that are reported equal \<open>max(0, fileSize - offset)\<close> and the new offset reported is
  the offset plus the bytes completed reported.
\<close>

theorem read_helper_clamps_to_file_size:
  assumes "IopSendIoReadIrp fuel env Dev Request = Inr (St, Request', evs)"
  shows "\<exists>Request1 props.
           IopSendIoIrp fuel env Dev (IrpMinorIoRead env) Request = Inr (St, Request1, evs)
           \<and> FileProperties Request1 = Some props
           \<and> (FileSize props < IoOffset Request1 + ucast (IoBytesCompleted Request1) \<longrightarrow>
                uint (IoBytesCompleted Request')
                  = max 0 (uint (FileSize props) - uint (IoOffset Request1))
                \<and> NewIoOffset Request' = IoOffset Request1 + ucast (IoBytesCompleted Request')
                \<and> IoOffset Request' = IoOffset Request1)"
  using assms clamp_to_file_size_result
  by (auto simp: IopSendIoReadIrp_def split: sum.splits option.splits prod.splits)

theorem read_helper_clamps_to_file_size_witness:
  "IopSendIoReadIrp 4 deferring_env disk_device example_read
     = Inr (STATUS_SUCCESS, example_read\<lparr>IoBytesCompleted := 1808, NewIoOffset := 10000\<rparr>,
            [Created [], Sent [DriverCall 0 IrpDown 1, DriverCall 0 IrpUp 1],
             Destroyed [FreeIrpStack, ReleaseIrp]])
   \<and> IopSendIoIrp 4 deferring_env disk_device (IrpMinorIoRead deferring_env) example_read
     = Inr (STATUS_SUCCESS, example_read\<lparr>IoBytesCompleted := 4096, NewIoOffset := 12288\<rparr>,
            [Created [], Sent [DriverCall 0 IrpDown 1, DriverCall 0 IrpUp 1],
             Destroyed [FreeIrpStack, ReleaseIrp]])
   \<and> (10000 :: ulonglong) < 8192 + ucast (4096 :: uintn)
   \<and> uint (1808 :: uintn) = max 0 (uint (10000 :: ulonglong) - uint (8192 :: ulonglong))
   \<and> (10000 :: ulonglong) = 8192 + ucast (1808 :: uintn)"
proof -
  have r: "IopSendIoReadIrp 4 deferring_env disk_device example_read
     = Inr (STATUS_SUCCESS, example_read\<lparr>IoBytesCompleted := 1808, NewIoOffset := 10000\<rparr>,
            [Created [], Sent [DriverCall 0 IrpDown 1, DriverCall 0 IrpUp 1],
             Destroyed [FreeIrpStack, ReleaseIrp]])"
    by code_simp
  have s: "IopSendIoIrp 4 deferring_env disk_device (IrpMinorIoRead deferring_env) example_read
     = Inr (STATUS_SUCCESS, example_read\<lparr>IoBytesCompleted := 4096, NewIoOffset := 12288\<rparr>,
            [Created [], Sent [DriverCall 0 IrpDown 1, DriverCall 0 IrpUp 1],
             Destroyed [FreeIrpStack, ReleaseIrp]])"
    by code_simp
  show ?thesis
    using read_helper_clamps_to_file_size [OF r] r s
    by (simp add: example_read_def)
qed

section \<open>A disk that vanished during enumeration\<close>

lemma and_or_nonzero:
  fixes x a b :: "'a::len word"
  assumes "x AND a \<noteq> 0"
  shows "x AND (a OR b) \<noteq> 0"
proof
  assume z: "x AND (a OR b) = 0"
  have "x AND a = (x AND (a OR b)) AND a"
    by (rule bit_eqI) (auto simp: bit_and_iff bit_or_iff)
  then show False using z assms by simp
qed

lemma release_last_reference:
  assumes "Disks w a = Some d" "Disk_ReferenceCount d = 1"
  shows "SdpDiskReleaseReference a w
           = Inr (w\<lparr>Disks := (Disks w)(a := None),
                    FreedDisks := FreedDisks w @ [(a, d\<lparr>Disk_ReferenceCount := 0\<rparr>)],
                    Trace := Trace w @ [MmFreeNonPagedPool a]\<rparr>)"
  using assms by (simp add: SdpDiskReleaseReference_def SdpDestroyDisk_def Let_def)

lemma enumerate_vanished:
  assumes init: "SdInitializeController env (Slot_Controller Slot) True = STATUS_SUCCESS"
    and alloc: "AllocateDisk env = Some a"
    and gone: "fst (SdGetMediaParameters env (Slot_Controller Slot)) = STATUS_NO_MEDIA
               \<or> (fst (SdGetMediaParameters env (Slot_Controller Slot)) = STATUS_SUCCESS
                   \<and> SdInitializeDma env (Slot_Controller Slot) = STATUS_NO_MEDIA)"
  shows "\<exists>w'. enumerate_inserted_disk env IrpDevice SlotAddress Slot w
                  = Inr (Some STATUS_SUCCESS, Some a, Slot, w')
           \<and> (case Disks w' a of
                 None \<Rightarrow> False
               | Some d \<Rightarrow> Disk_ReferenceCount d = 1 \<and> Disk_Device d = 0 \<and> Disk_DiskToken d = 0)
           \<and> FreedDisks w' = FreedDisks w \<and> IrpChildren w' = IrpChildren w"
proof -
  obtain St1 Count BlockSize where
    g: "SdGetMediaParameters env (Slot_Controller Slot) = (St1, Count, BlockSize)"
    by (cases "SdGetMediaParameters env (Slot_Controller Slot)") auto
  from gone g have "St1 = STATUS_NO_MEDIA
        \<or> (St1 = STATUS_SUCCESS \<and> SdInitializeDma env (Slot_Controller Slot) = STATUS_NO_MEDIA)"
    by simp
  then show ?thesis
  proof
    assume "St1 = STATUS_NO_MEDIA"
    then show ?thesis
      using g init alloc
      by (simp add: enumerate_inserted_disk_def SdpCreateDisk_def Let_def KSUCCESS_def)
  next
    assume "St1 = STATUS_SUCCESS \<and> SdInitializeDma env (Slot_Controller Slot) = STATUS_NO_MEDIA"
    then show ?thesis
      using g init alloc
      by (simp add: enumerate_inserted_disk_def SdpCreateDisk_def Let_def KSUCCESS_def)
  qed
qed


text \<open>
  Claim C8. When \<open>SdpSlotQueryChildren\<close> runs with an insertion pending, the controller
  initializes, the disk context is allocated, and the controller then reports no media
  (from the media parameters, or from the DMA initialization after them), the routine
  returns success with no disk attached to the slot and no child merged into the IRP; the
  new disk context, which never got a device or an interface token, has its reference
  count dropped to zero and is freed.
\<close>

theorem query_children_releases_vanished_disk:
  assumes ins: "Slot_Flags Slot AND SD_SLOT_FLAG_INSERTION_PENDING \<noteq> 0"
    and old: "Slot_Disk Slot = None \<or> (\<exists>p d. Slot_Disk Slot = Some p \<and> Disks w p = Some d)"
    and init: "SdInitializeController env (Slot_Controller Slot) True = STATUS_SUCCESS"
    and alloc: "AllocateDisk env = Some a"
    and gone: "fst (SdGetMediaParameters env (Slot_Controller Slot)) = STATUS_NO_MEDIA
               \<or> (fst (SdGetMediaParameters env (Slot_Controller Slot)) = STATUS_SUCCESS
                   \<and> SdInitializeDma env (Slot_Controller Slot) = STATUS_NO_MEDIA)"
  shows "\<exists>Slot' w' d. SdpSlotQueryChildren env IrpDevice SlotAddress Slot w
                        = Inr (STATUS_SUCCESS, Slot', w')
           \<and> Slot_Disk Slot' = None
           \<and> Disks w' a = None
           \<and> FreedDisks w' = FreedDisks w @ [(a, d)]
           \<and> Disk_ReferenceCount d = 0 \<and> Disk_Device d = 0 \<and> Disk_DiskToken d = 0
           \<and> IrpChildren w' = IrpChildren w"
proof -
  let ?Slot1 = "Slot\<lparr>Slot_Flags := Slot_Flags Slot AND NOT (SD_SLOT_FLAG_INSERTION_PENDING
                                                        OR SD_SLOT_FLAG_REMOVAL_PENDING)\<rparr>"
  have both: "Slot_Flags Slot AND (SD_SLOT_FLAG_INSERTION_PENDING OR SD_SLOT_FLAG_REMOVAL_PENDING) \<noteq> 0"
    using ins by (rule and_or_nonzero)
  have first: "\<exists>w2. (if Slot_Flags Slot AND (SD_SLOT_FLAG_INSERTION_PENDING OR SD_SLOT_FLAG_REMOVAL_PENDING) \<noteq> 0
               then (case Slot_Disk ?Slot1 of
                       None \<Rightarrow> Inr (?Slot1, w)
                     | Some p \<Rightarrow>
                         (case Disks w p of
                            None \<Rightarrow> Inl MemoryFault
                          | Some d \<Rightarrow>
                              Inr (?Slot1\<lparr>Slot_Disk := None\<rparr>,
                                   w\<lparr>Disks := (Disks w)(p \<mapsto>
                                          d\<lparr>Disk_Flags := Disk_Flags d AND NOT SD_DISK_FLAG_MEDIA_PRESENT\<rparr>),
                                     Trace := Trace w @ [KeAcquireQueuedLock (Slot_Lock ?Slot1),
                                                         KeReleaseQueuedLock (Slot_Lock ?Slot1)]\<rparr>)))
               else Inr (?Slot1, w)) = Inr (?Slot1\<lparr>Slot_Disk := None\<rparr>, w2)
            \<and> FreedDisks w2 = FreedDisks w \<and> IrpChildren w2 = IrpChildren w"
    using both old by auto
  then obtain w2 where
    f: "(if Slot_Flags Slot AND (SD_SLOT_FLAG_INSERTION_PENDING OR SD_SLOT_FLAG_REMOVAL_PENDING) \<noteq> 0
               then (case Slot_Disk ?Slot1 of
                       None \<Rightarrow> Inr (?Slot1, w)
                     | Some p \<Rightarrow>
                         (case Disks w p of
                            None \<Rightarrow> Inl MemoryFault
                          | Some d \<Rightarrow>
                              Inr (?Slot1\<lparr>Slot_Disk := None\<rparr>,
                                   w\<lparr>Disks := (Disks w)(p \<mapsto>
                                          d\<lparr>Disk_Flags := Disk_Flags d AND NOT SD_DISK_FLAG_MEDIA_PRESENT\<rparr>),
                                     Trace := Trace w @ [KeAcquireQueuedLock (Slot_Lock ?Slot1),
                                                         KeReleaseQueuedLock (Slot_Lock ?Slot1)]\<rparr>)))
               else Inr (?Slot1, w)) = Inr (?Slot1\<lparr>Slot_Disk := None\<rparr>, w2)"
    and f1: "FreedDisks w2 = FreedDisks w" "IrpChildren w2 = IrpChildren w"
    by blast
  let ?Slot2 = "?Slot1\<lparr>Slot_Disk := None\<rparr>"
  have c: "Slot_Controller ?Slot2 = Slot_Controller Slot" by simp
  from enumerate_vanished[of env ?Slot2 a IrpDevice SlotAddress w2] init alloc gone c
  obtain w3 where
    e: "enumerate_inserted_disk env IrpDevice SlotAddress ?Slot2 w2
          = Inr (Some STATUS_SUCCESS, Some a, ?Slot2, w3)"
    and e1: "case Disks w3 a of
                 None \<Rightarrow> False
               | Some d \<Rightarrow> Disk_ReferenceCount d = 1 \<and> Disk_Device d = 0 \<and> Disk_DiskToken d = 0"
    and e2: "FreedDisks w3 = FreedDisks w2" "IrpChildren w3 = IrpChildren w2"
    by auto
  from e1 obtain d where d: "Disks w3 a = Some d" "Disk_ReferenceCount d = 1"
    "Disk_Device d = 0" "Disk_DiskToken d = 0"
    by (auto split: option.splits)
  have "SdpSlotQueryChildren env IrpDevice SlotAddress Slot w
          = Inr (STATUS_SUCCESS, ?Slot2,
                 w3\<lparr>Disks := (Disks w3)(a := None),
                    FreedDisks := FreedDisks w3 @ [(a, d\<lparr>Disk_ReferenceCount := 0\<rparr>)],
                    Trace := Trace w3 @ [MmFreeNonPagedPool a]\<rparr>)"
    unfolding SdpSlotQueryChildren_def Let_def f
    using ins e release_last_reference[OF d(1,2)] by simp
  then show ?thesis using d e2 f1 by simp
qed


theorem query_children_releases_vanished_disk_witness:
  "Slot_Flags example_slot AND SD_SLOT_FLAG_INSERTION_PENDING \<noteq> 0
   \<and> Slot_Disk example_slot = None
   \<and> SdInitializeController vanishing_card_env (Slot_Controller example_slot) True = STATUS_SUCCESS
   \<and> AllocateDisk vanishing_card_env = Some 600
   \<and> fst (SdGetMediaParameters vanishing_card_env (Slot_Controller example_slot)) = STATUS_NO_MEDIA
   \<and> fst (SdGetMediaParameters dma_less_env (Slot_Controller example_slot)) = STATUS_SUCCESS
   \<and> SdInitializeDma dma_less_env (Slot_Controller example_slot) = STATUS_NO_MEDIA
   \<and> (\<exists>Slot' w' d. SdpSlotQueryChildren vanishing_card_env 300 300 example_slot empty_world
                       = Inr (STATUS_SUCCESS, Slot', w')
          \<and> Slot_Disk Slot' = None \<and> Disks w' 600 = None \<and> FreedDisks w' = [(600, d)]
          \<and> Disk_ReferenceCount d = 0 \<and> Disk_Device d = 0 \<and> Disk_DiskToken d = 0
          \<and> IrpChildren w' = [])
   \<and> (\<exists>Slot' w' d. SdpSlotQueryChildren dma_less_env 300 300 example_slot empty_world
                       = Inr (STATUS_SUCCESS, Slot', w')
          \<and> Slot_Disk Slot' = None \<and> Disks w' 600 = None \<and> FreedDisks w' = [(600, d)]
          \<and> Disk_ReferenceCount d = 0 \<and> Disk_Device d = 0 \<and> Disk_DiskToken d = 0
          \<and> IrpChildren w' = [])"
proof -
  have ins: "Slot_Flags example_slot AND SD_SLOT_FLAG_INSERTION_PENDING \<noteq> 0"
    by (simp add: example_slot_def SD_SLOT_FLAG_INSERTION_PENDING_def)
  have none: "Slot_Disk example_slot = None" by (simp add: example_slot_def)
  then have old: "Slot_Disk example_slot = None
                  \<or> (\<exists>p d. Slot_Disk example_slot = Some p \<and> Disks empty_world p = Some d)"
    by simp
  have v: "SdInitializeController vanishing_card_env (Slot_Controller example_slot) True = STATUS_SUCCESS"
    "AllocateDisk vanishing_card_env = Some 600"
    "fst (SdGetMediaParameters vanishing_card_env (Slot_Controller example_slot)) = STATUS_NO_MEDIA"
    by (simp_all add: vanishing_card_env_def)
  have m: "SdInitializeController dma_less_env (Slot_Controller example_slot) True = STATUS_SUCCESS"
    "AllocateDisk dma_less_env = Some 600"
    "fst (SdGetMediaParameters dma_less_env (Slot_Controller example_slot)) = STATUS_SUCCESS"
    "SdInitializeDma dma_less_env (Slot_Controller example_slot) = STATUS_NO_MEDIA"
    by (simp_all add: dma_less_env_def vanishing_card_env_def)
  have e: "FreedDisks empty_world = []" "IrpChildren empty_world = []"
    by (simp_all add: empty_world_def)
  show ?thesis
    using query_children_releases_vanished_disk
            [of example_slot empty_world vanishing_card_env 600 300 300, OF ins old v(1,2)]
      query_children_releases_vanished_disk
            [of example_slot empty_world dma_less_env 600 300 300, OF ins old m(1,2)]
      ins none v m e
    by simp
qed

section \<open>The DMA completion callback\<close>

lemma complete_by_owner:
  assumes "current_driver_stack_entry irp = Inr e" "Driver e = Drv"
  shows "IoCompleteIrp Drv irp St
           = Inr (irp\<lparr>Flags := insert IRP_COMPLETE (Flags irp), Direction := IrpUp, Status := St\<rparr>,
                  if IRP_PENDING \<in> Flags irp then [SignalOptionSignalAll] else [])"
  using assms by (simp add: IoCompleteIrp_def Let_def)

lemma current_entry_read_write:
  "current_driver_stack_entry (irp\<lparr>U_ReadWrite := rw\<rparr>) = current_driver_stack_entry irp"
  by (cases "Stack irp") (simp_all add: current_driver_stack_entry_def)

text \<open>
  Claim C6. When the DMA completion callback runs on the disk's active IRP, which the SD
  driver owns at its current stack slot: a failure status completes the IRP with that
  status; otherwise the bytes completed and the new offset each advance by the bytes
  transferred, the IRP is completed with the success status when the bytes completed now
  equal the requested size and only then, and otherwise the next DMA transfer is submitted
  with block offset \<open>newOffset >> blockShift\<close>, the remaining block count
  \<open>(size - bytesCompleted) >> blockShift\<close> and buffer offset \<open>bytesCompleted\<close>.
\<close>

theorem dma_completion_step:
  assumes disk: "Disks w Context = Some Disk" and p: "Disk_Irp Disk = Some p"
    and irp: "Irps w p = Some irp"
    and own: "current_driver_stack_entry irp = Inr e" "Driver e = SdDriver env"
  shows "(\<not> KSUCCESS St \<longrightarrow>
            SdpDmaCompletion ioenv env Controller Context BytesTransferred St w
              = Inr (w\<lparr>Irps := (Irps w)(p \<mapsto>
                          irp\<lparr>Flags := insert IRP_COMPLETE (Flags irp), Direction := IrpUp,
                              Status := St\<rparr>),
                       Trace := Trace w @ (if IRP_PENDING \<in> Flags irp
                                           then [ObSignalObject p SignalOptionSignalAll] else [])\<rparr>))
       \<and> (KSUCCESS St \<and> IoBytesCompleted (U_ReadWrite irp) + BytesTransferred
                           = IoSizeInBytes (U_ReadWrite irp) \<longrightarrow>
            SdpDmaCompletion ioenv env Controller Context BytesTransferred St w
              = Inr (w\<lparr>Irps := (Irps w)(p \<mapsto>
                          irp\<lparr>U_ReadWrite := (U_ReadWrite irp)
                                 \<lparr>IoBytesCompleted := IoBytesCompleted (U_ReadWrite irp) + BytesTransferred,
                                  NewIoOffset := NewIoOffset (U_ReadWrite irp) + ucast BytesTransferred\<rparr>,
                              Flags := insert IRP_COMPLETE (Flags irp), Direction := IrpUp,
                              Status := St\<rparr>),
                       Trace := Trace w @ (if IRP_PENDING \<in> Flags irp
                                           then [ObSignalObject p SignalOptionSignalAll] else [])\<rparr>))
       \<and> (KSUCCESS St \<and> IoBytesCompleted (U_ReadWrite irp) + BytesTransferred
                           \<noteq> IoSizeInBytes (U_ReadWrite irp) \<longrightarrow>
            SdpDmaCompletion ioenv env Controller Context BytesTransferred St w
              = Inr (w\<lparr>Irps := (Irps w)(p \<mapsto>
                          irp\<lparr>U_ReadWrite := (U_ReadWrite irp)
                                 \<lparr>IoBytesCompleted := IoBytesCompleted (U_ReadWrite irp) + BytesTransferred,
                                  NewIoOffset := NewIoOffset (U_ReadWrite irp) + ucast BytesTransferred\<rparr>\<rparr>),
                       Trace := Trace w @
                         [CallSdBlockIoDma (Disk_Controller Disk)
                            (drop_bit (unat (Disk_BlockShift Disk))
                               (NewIoOffset (U_ReadWrite irp) + ucast BytesTransferred))
                            (drop_bit (unat (Disk_BlockShift Disk))
                               (IoSizeInBytes (U_ReadWrite irp)
                                  - (IoBytesCompleted (U_ReadWrite irp) + BytesTransferred)))
                            (IoBuffer (U_ReadWrite irp))
                            (IoBytesCompleted (U_ReadWrite irp) + BytesTransferred)
                            (MinorCode irp = IrpMinorIoWrite ioenv)
                            Context]\<rparr>))"
proof (intro conjI impI)
  assume "\<not> KSUCCESS St"
  then show "SdpDmaCompletion ioenv env Controller Context BytesTransferred St w
              = Inr (w\<lparr>Irps := (Irps w)(p \<mapsto>
                          irp\<lparr>Flags := insert IRP_COMPLETE (Flags irp), Direction := IrpUp,
                              Status := St\<rparr>),
                       Trace := Trace w @ (if IRP_PENDING \<in> Flags irp
                                           then [ObSignalObject p SignalOptionSignalAll] else [])\<rparr>)"
    using disk p irp complete_by_owner[OF own, of St]
    by (simp add: SdpDmaCompletion_def)
next
  let ?rw1 = "(U_ReadWrite irp)
                \<lparr>IoBytesCompleted := IoBytesCompleted (U_ReadWrite irp) + BytesTransferred,
                 NewIoOffset := NewIoOffset (U_ReadWrite irp) + ucast BytesTransferred\<rparr>"
  assume a: "KSUCCESS St \<and> IoBytesCompleted (U_ReadWrite irp) + BytesTransferred
                           = IoSizeInBytes (U_ReadWrite irp)"
  have o: "current_driver_stack_entry (irp\<lparr>U_ReadWrite := ?rw1\<rparr>) = Inr e"
    using own(1) by (simp add: current_entry_read_write)
  show "SdpDmaCompletion ioenv env Controller Context BytesTransferred St w
              = Inr (w\<lparr>Irps := (Irps w)(p \<mapsto>
                          irp\<lparr>U_ReadWrite := ?rw1,
                              Flags := insert IRP_COMPLETE (Flags irp), Direction := IrpUp,
                              Status := St\<rparr>),
                       Trace := Trace w @ (if IRP_PENDING \<in> Flags irp
                                           then [ObSignalObject p SignalOptionSignalAll] else [])\<rparr>)"
    using a disk p irp complete_by_owner[OF o own(2), of St]
    by (simp add: SdpDmaCompletion_def Let_def)
next
  assume a: "KSUCCESS St \<and> IoBytesCompleted (U_ReadWrite irp) + BytesTransferred
                           \<noteq> IoSizeInBytes (U_ReadWrite irp)"
  then show "SdpDmaCompletion ioenv env Controller Context BytesTransferred St w
              = Inr (w\<lparr>Irps := (Irps w)(p \<mapsto>
                          irp\<lparr>U_ReadWrite := (U_ReadWrite irp)
                                 \<lparr>IoBytesCompleted := IoBytesCompleted (U_ReadWrite irp) + BytesTransferred,
                                  NewIoOffset := NewIoOffset (U_ReadWrite irp) + ucast BytesTransferred\<rparr>\<rparr>),
                       Trace := Trace w @
                         [CallSdBlockIoDma (Disk_Controller Disk)
                            (drop_bit (unat (Disk_BlockShift Disk))
                               (NewIoOffset (U_ReadWrite irp) + ucast BytesTransferred))
                            (drop_bit (unat (Disk_BlockShift Disk))
                               (IoSizeInBytes (U_ReadWrite irp)
                                  - (IoBytesCompleted (U_ReadWrite irp) + BytesTransferred)))
                            (IoBuffer (U_ReadWrite irp))
                            (IoBytesCompleted (U_ReadWrite irp) + BytesTransferred)
                            (MinorCode irp = IrpMinorIoWrite ioenv)
                            Context]\<rparr>)"
    using disk p irp
    by (simp add: SdpDmaCompletion_def Let_def)
qed


theorem dma_completion_step_witness:
  "Disks dma_world 600 = Some (polled_disk\<lparr>Disk_Irp := Some 700, Disk_IoBuffer := 7\<rparr>)
   \<and> Irps dma_world 700 = Some dma_irp
   \<and> current_driver_stack_entry dma_irp = Inr \<lparr>Driver = 1, DriverContext = 10\<rparr>
   \<and> SdDriver vanishing_card_env = 1
   \<and> \<not> KSUCCESS STATUS_DEVICE_IO_ERROR \<and> KSUCCESS STATUS_SUCCESS
   \<and> SdpDmaCompletion example_env vanishing_card_env 77 600 0 STATUS_DEVICE_IO_ERROR dma_world
       = Inr (dma_world
                \<lparr>Irps := (Irps dma_world)(700 \<mapsto>
                     dma_irp\<lparr>Flags := insert IRP_COMPLETE (Flags dma_irp), Direction := IrpUp,
                             Status := STATUS_DEVICE_IO_ERROR\<rparr>),
                 Trace := [ObSignalObject 700 SignalOptionSignalAll]\<rparr>)
   \<and> SdpDmaCompletion example_env vanishing_card_env 77 600 4096 STATUS_SUCCESS dma_world
       = Inr (dma_world
                \<lparr>Irps := (Irps dma_world)(700 \<mapsto>
                     dma_irp\<lparr>U_ReadWrite := (U_ReadWrite dma_irp)
                                \<lparr>IoBytesCompleted := 4096, NewIoOffset := 8192\<rparr>,
                             Flags := insert IRP_COMPLETE (Flags dma_irp), Direction := IrpUp,
                             Status := STATUS_SUCCESS\<rparr>),
                 Trace := [ObSignalObject 700 SignalOptionSignalAll]\<rparr>)
   \<and> SdpDmaCompletion example_env vanishing_card_env 77 600 1024 STATUS_SUCCESS dma_world
       = Inr (dma_world
                \<lparr>Irps := (Irps dma_world)(700 \<mapsto>
                     dma_irp\<lparr>U_ReadWrite := (U_ReadWrite dma_irp)
                                \<lparr>IoBytesCompleted := 1024, NewIoOffset := 5120\<rparr>\<rparr>),
                 Trace := [CallSdBlockIoDma 77 10 6 7 1024 True 600]\<rparr>)"
proof -
  have d: "Disks dma_world 600 = Some (polled_disk\<lparr>Disk_Irp := Some 700, Disk_IoBuffer := 7\<rparr>)"
    and p: "Disk_Irp (polled_disk\<lparr>Disk_Irp := Some 700, Disk_IoBuffer := 7\<rparr>) = Some 700"
    and i: "Irps dma_world 700 = Some dma_irp"
    by (simp_all add: dma_world_def)
  have c: "current_driver_stack_entry dma_irp = Inr \<lparr>Driver = 1, DriverContext = 10\<rparr>"
    by (simp add: current_driver_stack_entry_def dma_irp_def example_irp_def example_stack_def)
  have o: "Driver \<lparr>Driver = 1, DriverContext = 10\<rparr> = SdDriver vanishing_card_env"
    by (simp add: vanishing_card_env_def)
  have k: "\<not> KSUCCESS STATUS_DEVICE_IO_ERROR" "KSUCCESS STATUS_SUCCESS"
    by (simp_all add: KSUCCESS_def)
  have f: "IoBytesCompleted (U_ReadWrite dma_irp) = 0" "IoSizeInBytes (U_ReadWrite dma_irp) = 4096"
    "NewIoOffset (U_ReadWrite dma_irp) = 4096" "IoBuffer (U_ReadWrite dma_irp) = 7"
    "MinorCode dma_irp = 0x4002" "IRP_PENDING \<in> Flags dma_irp"
    "IrpMinorIoWrite example_env = 0x4002" "Trace dma_world = []"
    "Disk_Controller (polled_disk\<lparr>Disk_Irp := Some 700, Disk_IoBuffer := 7\<rparr>) = 77"
    "Disk_BlockShift (polled_disk\<lparr>Disk_Irp := Some 700, Disk_IoBuffer := 7\<rparr>) = 9"
    by (simp_all add: dma_irp_def example_env_def dma_world_def polled_disk_def)
  have s: "drop_bit 9 (5120 :: ulonglong) = 10" "drop_bit 9 (3072 :: uintn) = 6"
    by (simp_all add: drop_bit_eq_div)
  show ?thesis
    using dma_completion_step [OF d p i c o, of STATUS_DEVICE_IO_ERROR example_env 77 0]
      dma_completion_step [OF d p i c o, of STATUS_SUCCESS example_env 77 4096]
      dma_completion_step [OF d p i c o, of STATUS_SUCCESS example_env 77 1024]
      d i c k f s
    by (simp add: vanishing_card_env_def)
qed

section \<open>Polled block I/O\<close>

text \<open>
  Two steps of the polled path that hold as the specification gives them: without
  \<open>LockRequired\<close> the controller lock is neither acquired nor released, and the
  transfer loop ends with success only when every block is done.
\<close>

lemma polled_loop_calls_no_lock:
  "polled_loop fuel env Disk Buf Write Blocks ps = Inr (St, ps') \<Longrightarrow>
   \<forall>e \<in> set (PolledCalls ps). \<not> is_lock_call e \<Longrightarrow>
   \<forall>e \<in> set (PolledCalls ps'). \<not> is_lock_call e"
proof (induction fuel arbitrary: ps)
  case 0
  then show ?case by (auto split: if_splits)
next
  case (Suc n)
  show ?case
  proof (cases "BlocksComplete ps = Blocks")
    case True
    then show ?thesis using Suc.prems by simp
  next
    case False
    note nd = this
    show ?thesis
    proof (cases "unat (FragmentIndex ps) < length (Fragment Buf)")
      case False
      then show ?thesis using Suc.prems nd by simp
    next
      case True
      let ?Frag = "Fragment Buf ! unat (FragmentIndex ps)"
      let ?VA = "VirtualAddress ?Frag + FragmentOffset ps"
      let ?Shifted = "drop_bit (unat (Disk_BlockShift Disk)) (Size ?Frag - FragmentOffset ps)"
      let ?Count = "if Blocks - BlocksComplete ps < ?Shifted then Blocks - BlocksComplete ps else ?Shifted"
      let ?St = "SdBlockIoPolled env (PolledCalls ps) (Disk_Controller Disk) (BlockOffset ps) ?Count ?VA Write"
      let ?calls = "PolledCalls ps @ [CallSdBlockIoPolled (Disk_Controller Disk) (BlockOffset ps) ?Count ?VA Write]"
      have c: "\<forall>e \<in> set ?calls. \<not> is_lock_call e" using Suc.prems(2) by simp
      show ?thesis
      proof (cases "KSUCCESS ?St")
        case False
        then have "ps' = ps\<lparr>PolledCalls := ?calls\<rparr>"
          using Suc.prems(1) nd True by (simp add: Let_def)
        then show ?thesis using c by simp
      next
        case ok: True
        let ?off = "FragmentOffset ps + push_bit (unat (Disk_BlockShift Disk)) ?Count"
        let ?ps1 = "ps\<lparr>BlockOffset := BlockOffset ps + ucast ?Count,
                        BlocksComplete := BlocksComplete ps + ?Count,
                        FragmentIndex := (if ?off \<ge> Size ?Frag
                                          then FragmentIndex ps + 1 else FragmentIndex ps),
                        FragmentOffset := (if ?off \<ge> Size ?Frag then 0 else ?off),
                        PolledCalls := ?calls\<rparr>"
        have "polled_loop n env Disk Buf Write Blocks ?ps1 = Inr (St, ps')"
          using Suc.prems(1) nd True ok by (simp add: Let_def)
        moreover have "\<forall>e \<in> set (PolledCalls ?ps1). \<not> is_lock_call e" using c by simp
        ultimately show ?thesis by (rule Suc.IH)
      qed
    qed
  qed
qed

lemma polled_loop_success_is_complete:
  "polled_loop fuel env Disk Buf Write Blocks ps = Inr (St, ps') \<Longrightarrow> KSUCCESS St \<Longrightarrow>
   BlocksComplete ps' = Blocks"
proof (induction fuel arbitrary: ps)
  case 0
  then show ?case by (auto split: if_splits)
next
  case (Suc n)
  then show ?case
    by (auto simp: Let_def split: if_splits)
qed

lemma polled_epilogue_no_lock:
  "\<forall>e \<in> set evs. \<not> is_lock_call e \<Longrightarrow>
   polled_epilogue env Disk Orig Buf Write False St Done evs = (St', Done', evs') \<Longrightarrow>
   \<forall>e \<in> set evs'. \<not> is_lock_call e"
  by (auto simp: polled_epilogue_def Let_def split: if_splits)

lemma polled_without_lock_required_takes_no_lock:
  assumes "SdpPerformBlockIoPolled fuel env Disk Orig Lba Blocks Write False = Inr (St, Done, evs)"
  shows "\<forall>e \<in> set evs. \<not> is_lock_call e"
proof -
  obtain St0 Buf where v: "MmValidateIoBuffer env 0 (- 1) (push_bit (unat (Disk_BlockShift Disk)) 1)
                (push_bit (unat (Disk_BlockShift Disk)) Blocks) False Orig = (St0, Buf)"
    by (cases "MmValidateIoBuffer env 0 (- 1) (push_bit (unat (Disk_BlockShift Disk)) 1)
                (push_bit (unat (Disk_BlockShift Disk)) Blocks) False Orig") auto
  show ?thesis
    using assms v
    by (auto simp: SdpPerformBlockIoPolled_def Let_def
             split: if_splits sum.splits prod.splits
             dest!: polled_epilogue_no_lock[rotated] polled_loop_calls_no_lock)
qed

text \<open>
  Claim C7 says, among the steps of \<open>SdpPerformBlockIoPolled\<close>, that a controller failure
  aborts the transfer and surfaces the controller's status. On a read of two blocks
  through a substitute buffer, where the controller transfers the first block and fails
  on the second with an I/O error, the routine assigns the result of the copy back to
  \<open>Status\<close> and returns success with one block completed. The same transfer through a
  buffer that needs no substitute returns the I/O error, as does the DMA path of
  \<open>SdDispatchIo\<close>, which keeps a failure status over the copy's.
\<close>

theorem polled_read_failure_is_masked_by_copy_back:
  "SdBlockIoPolled failing_second_block_env [CallSdBlockIoPolled 77 8 1 0x8000 False]
       77 9 1 0xA000 False = STATUS_DEVICE_IO_ERROR
   \<and> SdpPerformBlockIoPolled 4 failing_second_block_env polled_disk unaligned_buffer 8 2 False False
       = Inr (STATUS_SUCCESS, 1,
              [CallSdBlockIoPolled 77 8 1 0x8000 False, CallSdBlockIoPolled 77 9 1 0xA000 False,
               CallMmCopyIoBuffer 1 2 512, CallMmFreeIoBuffer 2, CallMmFlushBuffer 0x1001 1024])
   \<and> SdpPerformBlockIoPolled 4 in_place_env polled_disk substitute_buffer 8 2 False False
       = Inr (STATUS_DEVICE_IO_ERROR, 1,
              [CallSdBlockIoPolled 77 8 1 0x8000 False, CallSdBlockIoPolled 77 9 1 0xA000 False,
               CallMmFlushBuffer 0x8000 512, CallMmFlushBuffer 0xA000 512])"
  by code_simp

end
